theory Spec2Isabelle
  imports Complex_Main "HOL-Library.Multiset"
begin

section \<open>Exceptions\<close>

text \<open>
  The two classes of exception of the library: DeveloperError for a violated contract,
  thrown by the checks of a validated build, and RuntimeError for a failure at run time.
\<close>

datatype error = DeveloperError | RuntimeError

section \<open>Simulated clock (class Clock)\<close>

text \<open>
  The class is the third of the classes in the source file
  packages/engine/Source/Core/AxisAlignedBoundingBox.ts.
\<close>

subsection \<open>Time values and the two enumerations\<close>

text \<open>
  Modelled from the spec: JulianDate. The date/time value type is imported by the clock
  but its file is not part of the sources at hand. A time point is a position on a linear
  axis measured in seconds, in exact arithmetic: \<open>addSeconds\<close> and \<open>addDays\<close>
  move a point, a day being 86400 seconds, \<open>secondsDifference left right\<close> is the
  signed distance from \<open>right\<close> to \<open>left\<close>, and the comparisons are those of the
  axis. Rounding of the floating-point representation is not modelled.
\<close>

type_synonym JulianDate = real

definition JulianDate_addSeconds :: "JulianDate \<Rightarrow> real \<Rightarrow> JulianDate" where
  "JulianDate_addSeconds julianDate seconds = julianDate + seconds"

definition JulianDate_secondsDifference :: "JulianDate \<Rightarrow> JulianDate \<Rightarrow> real" where
  "JulianDate_secondsDifference left right = left - right"

definition JulianDate_lessThan :: "JulianDate \<Rightarrow> JulianDate \<Rightarrow> bool" where
  "JulianDate_lessThan left right = (left < right)"

definition JulianDate_greaterThan :: "JulianDate \<Rightarrow> JulianDate \<Rightarrow> bool" where
  "JulianDate_greaterThan left right = (left > right)"

definition JulianDate_equals :: "JulianDate \<Rightarrow> JulianDate \<Rightarrow> bool" where
  "JulianDate_equals left right = (left = right)"

definition JulianDate_addDays :: "JulianDate \<Rightarrow> real \<Rightarrow> JulianDate" where
  "JulianDate_addDays julianDate days = julianDate + days * 86400"

text \<open>
  Modelled from the spec: ClockStep and ClockRange. The step mode is one of: advance a
  fixed number of simulated seconds per tick, follow the system clock scaled by a
  multiplier, follow the system clock exactly. The range mode is one of: unbounded,
  clamp at the bounds, loop back to the start.
\<close>

datatype ClockStep = TICK_DEPENDENT | SYSTEM_CLOCK_MULTIPLIER | SYSTEM_CLOCK

datatype ClockRange = UNBOUNDED | CLAMPED | LOOP_STOP

subsection \<open>The clock state\<close>

text \<open>
  The fields of class Clock. The private fields \<open>_currentTime\<close>, \<open>_multiplier\<close>,
  \<open>_clockStep\<close>, \<open>_shouldAnimate\<close> and \<open>_lastSystemTime\<close> lose their underscore.
  The two event objects carry no state of the clock; the notifications raised by a call
  are counted in its outcome.
\<close>

record Clock =
  startTime :: JulianDate
  stopTime :: JulianDate
  clockRange :: ClockRange
  canAnimate :: bool
  currentTime :: JulianDate
  multiplier :: real
  clockStep :: ClockStep
  shouldAnimate :: bool
  lastSystemTime :: real

subsection \<open>Property setters\<close>

definition set_currentTime :: "JulianDate \<Rightarrow> Clock \<Rightarrow> Clock" where
  "set_currentTime v c =
     (if JulianDate_equals (currentTime c) v then c
      else (if clockStep c = SYSTEM_CLOCK
            then c\<lparr>clockStep := SYSTEM_CLOCK_MULTIPLIER\<rparr> else c)\<lparr>currentTime := v\<rparr>)"

definition set_multiplier :: "real \<Rightarrow> Clock \<Rightarrow> Clock" where
  "set_multiplier v c =
     (if multiplier c = v then c
      else (if clockStep c = SYSTEM_CLOCK
            then c\<lparr>clockStep := SYSTEM_CLOCK_MULTIPLIER\<rparr> else c)\<lparr>multiplier := v\<rparr>)"

text \<open>The system time read by \<open>JulianDate.now()\<close> is the first argument.\<close>

definition set_clockStep :: "JulianDate \<Rightarrow> ClockStep \<Rightarrow> Clock \<Rightarrow> Clock" where
  "set_clockStep now v c =
     (if v = SYSTEM_CLOCK
      then c\<lparr>multiplier := 1, shouldAnimate := True, currentTime := now\<rparr>
      else c)\<lparr>clockStep := v\<rparr>"

definition set_shouldAnimate :: "bool \<Rightarrow> Clock \<Rightarrow> Clock" where
  "set_shouldAnimate v c =
     (if shouldAnimate c = v then c
      else (if clockStep c = SYSTEM_CLOCK
            then c\<lparr>clockStep := SYSTEM_CLOCK_MULTIPLIER\<rparr> else c)\<lparr>shouldAnimate := v\<rparr>)"

subsection \<open>The constructor\<close>

text \<open>
  The interface ClockOptions; a field that is not given is \<open>None\<close>, and the options
  object itself, when omitted, is the object without fields.
\<close>

record ClockOptions =
  opt_startTime :: "JulianDate option"
  opt_stopTime :: "JulianDate option"
  opt_currentTime :: "JulianDate option"
  opt_multiplier :: "real option"
  opt_clockStep :: "ClockStep option"
  opt_clockRange :: "ClockRange option"
  opt_canAnimate :: "bool option"
  opt_shouldAnimate :: "bool option"

text \<open>
  The constructor of a validated build: the defaults of the three times, the check that
  the start time is not after the stop time, the fields, and the four setters applied
  in turn. The timestamp read by \<open>getTimestamp()\<close> and the system time read by
  \<open>JulianDate.now()\<close> are the first two arguments.
\<close>

definition new_Clock :: "real \<Rightarrow> JulianDate \<Rightarrow> ClockOptions \<Rightarrow> error + Clock" where
  "new_Clock timestamp now opts =
     (let cur = (case opt_currentTime opts of
                   None \<Rightarrow>
                     (case opt_startTime opts of
                        Some t \<Rightarrow> t
                      | None \<Rightarrow>
                          (case opt_stopTime opts of
                             Some t \<Rightarrow> JulianDate_addDays t (- 1)
                           | None \<Rightarrow> now))
                 | Some t \<Rightarrow> t);
          start = (case opt_startTime opts of None \<Rightarrow> cur | Some t \<Rightarrow> t);
          stop = (case opt_stopTime opts of None \<Rightarrow> JulianDate_addDays start 1 | Some t \<Rightarrow> t);
          m = (case opt_multiplier opts of None \<Rightarrow> 1 | Some v \<Rightarrow> v);
          step = (case opt_clockStep opts of None \<Rightarrow> SYSTEM_CLOCK_MULTIPLIER | Some v \<Rightarrow> v);
          animate = (case opt_shouldAnimate opts of None \<Rightarrow> False | Some v \<Rightarrow> v)
      in if JulianDate_greaterThan start stop then Inl DeveloperError
         else
           let c = \<lparr>startTime = start, stopTime = stop,
                    clockRange = (case opt_clockRange opts of None \<Rightarrow> UNBOUNDED | Some v \<Rightarrow> v),
                    canAnimate = (case opt_canAnimate opts of None \<Rightarrow> True | Some v \<Rightarrow> v),
                    currentTime = cur, multiplier = m, clockStep = step,
                    shouldAnimate = animate, lastSystemTime = timestamp\<rparr>;
               c = set_currentTime cur c;
               c = set_multiplier m c;
               c = set_shouldAnimate animate c;
               c = set_clockStep now step c
           in Inr c)"

subsection \<open>tick\<close>

text \<open>
  The outcome of one call of \<open>tick\<close>: the clock afterwards, the value returned, and how
  often each of the two events was raised during the call.
\<close>

record TickOutcome =
  clock :: Clock
  returned :: JulianDate
  onStopRaised :: nat
  onTickRaised :: nat

text \<open>
  The wrap loop of the LOOP_STOP branch,
  \<^verbatim>\<open>while (greaterThan(currentTime, stopTime)) { currentTime = addSeconds(startTime,
  secondsDifference(currentTime, stopTime)); onStop.raiseEvent(this); }\<close>
  with the number of stop notifications raised so far as an accumulator. The loop need
  not end, so the function is partial: \<open>None\<close> stands for a loop that never returns.
\<close>

partial_function (option) loopStop ::
  "JulianDate \<Rightarrow> JulianDate \<Rightarrow> JulianDate \<Rightarrow> nat \<Rightarrow> (JulianDate \<times> nat) option" where
  "loopStop start stop cur raised =
     (if JulianDate_greaterThan cur stop
      then loopStop start stop
             (JulianDate_addSeconds start (JulianDate_secondsDifference cur stop)) (raised + 1)
      else Some (cur, raised))"

text \<open>The time after the step, before the range policy is applied.\<close>

definition advance :: "real \<Rightarrow> Clock \<Rightarrow> JulianDate" where
  "advance currentSystemTime c =
     (if clockStep c = TICK_DEPENDENT
      then JulianDate_addSeconds (currentTime c) (multiplier c)
      else JulianDate_addSeconds (currentTime c)
             (multiplier c * ((currentSystemTime - lastSystemTime c) / 1000)))"

text \<open>
  The last three statements of \<open>tick\<close>: store the time and the timestamp, raise the tick
  event, return the time.
\<close>

definition finish :: "real \<Rightarrow> Clock \<Rightarrow> JulianDate \<times> nat \<Rightarrow> TickOutcome" where
  "finish currentSystemTime c r =
     \<lparr>clock = c\<lparr>currentTime := fst r, lastSystemTime := currentSystemTime\<rparr>,
      returned = fst r, onStopRaised = snd r, onTickRaised = 1\<rparr>"

text \<open>
  \<open>tick\<close>. The wall-clock timestamp in milliseconds read by \<open>getTimestamp()\<close> and the
  system time read by \<open>JulianDate.now()\<close> are the first two arguments.
\<close>

definition tick :: "real \<Rightarrow> JulianDate \<Rightarrow> Clock \<Rightarrow> TickOutcome option" where
  "tick currentSystemTime now c =
     (if canAnimate c \<and> shouldAnimate c then
        if clockStep c = SYSTEM_CLOCK then Some (finish currentSystemTime c (now, 0))
        else
          let t = advance currentSystemTime c in
          if clockRange c = CLAMPED then
            if JulianDate_lessThan t (startTime c)
            then Some (finish currentSystemTime c (startTime c, 0))
            else if JulianDate_greaterThan t (stopTime c)
            then Some (finish currentSystemTime c (stopTime c, 1))
            else Some (finish currentSystemTime c (t, 0))
          else if clockRange c = LOOP_STOP then
            map_option (finish currentSystemTime c)
              (loopStop (startTime c) (stopTime c)
                 (if JulianDate_lessThan t (startTime c) then startTime c else t) 0)
          else Some (finish currentSystemTime c (t, 0))
      else Some (finish currentSystemTime c (currentTime c, 0)))"

text \<open>The clock of the two test scenarios of the specification, started at \<open>T0\<close>.\<close>

definition scenarioClock :: "JulianDate \<Rightarrow> ClockRange \<Rightarrow> real \<Rightarrow> real \<Rightarrow> Clock" where
  "scenarioClock T0 r m timestamp =
     \<lparr>startTime = T0, stopTime = JulianDate_addSeconds T0 10, clockRange = r,
      canAnimate = True, currentTime = T0, multiplier = m, clockStep = TICK_DEPENDENT,
      shouldAnimate = True, lastSystemTime = timestamp\<rparr>"

text \<open>
  Options the constructor accepts, its check rejecting a start time after the stop time
  only, and the clock it makes of them: a looping clock whose start and stop times
  coincide, advancing one simulated second per tick.
\<close>

definition zeroLengthOptions :: ClockOptions where
  "zeroLengthOptions =
     \<lparr>opt_startTime = Some 0, opt_stopTime = Some 0, opt_currentTime = None,
      opt_multiplier = None, opt_clockStep = Some TICK_DEPENDENT,
      opt_clockRange = Some LOOP_STOP, opt_canAnimate = None, opt_shouldAnimate = Some True\<rparr>"

definition zeroLengthClock :: Clock where
  "zeroLengthClock =
     \<lparr>startTime = 0, stopTime = 0, clockRange = LOOP_STOP, canAnimate = True,
      currentTime = 0, multiplier = 1, clockStep = TICK_DEPENDENT, shouldAnimate = True,
      lastSystemTime = 0\<rparr>"

text \<open>A clock that follows the system clock, as the \<open>clockStep\<close> setter leaves it.\<close>

definition systemClock :: Clock where
  "systemClock = set_clockStep 0 SYSTEM_CLOCK (scenarioClock 0 UNBOUNDED 25 0)"

section \<open>Associative array (class AssociativeArray)\<close>

subsection \<open>Values, defined-ness and the two array primitives used by remove\<close>

text \<open>
  The values a collection holds are JavaScript values other than undefined: null, NaN,
  the value of a property of \<open>Object.prototype\<close> (named by that property; for
  \<open>__proto__\<close> it is \<open>Object.prototype\<close> itself), another primitive value (a
  number, a string, a boolean), or another object. What matters of a value is how
  \<open>===\<close> compares it: every value is identical to itself and to no other, except
  NaN, which is not identical to itself.
\<close>

datatype 'v JSValue = Null | NaN | Inherited string | Primitive 'v | Object 'v

definition strictEquals :: "'v JSValue \<Rightarrow> 'v JSValue \<Rightarrow> bool" where
  "strictEquals a b = (a = b \<and> a \<noteq> NaN)"

text \<open>
  Modelled from the spec: defined. The helper is imported by every class here but its
  file is not part of the sources at hand. It is the test of defined-ness of the
  validation layer: a value is defined unless it is undefined, here \<open>None\<close>, or null.
\<close>

definition defined :: "'v JSValue option \<Rightarrow> bool" where
  "defined v = (v \<noteq> None \<and> v \<noteq> Some Null)"

text \<open>
  \<open>Array.prototype.indexOf\<close>: the first index whose element is identical to the value,
  \<open>-1\<close> when there is none.
\<close>

fun indexOf :: "'v JSValue list \<Rightarrow> 'v JSValue \<Rightarrow> int" where
  "indexOf [] v = - 1"
| "indexOf (x # xs) v =
     (if strictEquals x v then 0
      else (let i = indexOf xs v in if i < 0 then - 1 else i + 1))"

text \<open>
  \<open>array.splice(start, 1)\<close>: a negative start counts from the end, a start past the end
  is the end, and one element is deleted at that position when there is one.
\<close>

definition splice1 :: "'a list \<Rightarrow> int \<Rightarrow> 'a list" where
  "splice1 xs start =
     (let len = int (length xs);
          k = nat (if start < 0 then max (len + start) 0 else min start len)
      in take k xs @ drop (k + 1) xs)"

subsection \<open>The hash\<close>

text \<open>
  The hash is the object \<open>{}\<close> used as a dictionary. A key is a property name, a
  number key being its string. The map holds the own properties of the object; its
  prototype is \<open>Object.prototype\<close>, whose properties the object inherits.
\<close>

definition objectPrototypeNames :: "string list" where
  "objectPrototypeNames =
     [''constructor'', ''hasOwnProperty'', ''isPrototypeOf'', ''propertyIsEnumerable'',
      ''toLocaleString'', ''toString'', ''valueOf'', ''__defineGetter__'',
      ''__defineSetter__'', ''__lookupGetter__'', ''__lookupSetter__'', ''__proto__'']"

text \<open>
  \<open>hash[key]\<close>: the own property, else the inherited one, else undefined.
\<close>

definition readProperty :: "(string \<rightharpoonup> 'v JSValue) \<Rightarrow> string \<Rightarrow> 'v JSValue option" where
  "readProperty h key =
     (case h key of
        Some v \<Rightarrow> Some v
      | None \<Rightarrow> if key \<in> set objectPrototypeNames then Some (Inherited key) else None)"

text \<open>
  \<open>hash[key] = value\<close> makes an own property, except for the key \<open>__proto__\<close>, which
  \<open>Object.prototype\<close> defines by a setter: given a primitive value other than null it
  does nothing; given an object or null it replaces the prototype of the hash, and what
  the keys of the hash then read as depends on that object. The model does not follow
  the hash beyond that point and gives \<open>None\<close>.
\<close>

definition writeProperty ::
  "(string \<rightharpoonup> 'v JSValue) \<Rightarrow> string \<Rightarrow> 'v JSValue \<Rightarrow> (string \<rightharpoonup> 'v JSValue) option" where
  "writeProperty h key v =
     (if key = ''__proto__''
      then (case v of NaN \<Rightarrow> Some h | Primitive p \<Rightarrow> Some h | _ \<Rightarrow> None)
      else Some (h(key \<mapsto> v)))"

text \<open>\<open>delete hash[key]\<close> removes an own property and leaves the inherited ones.\<close>

definition deleteProperty :: "(string \<rightharpoonup> 'v JSValue) \<Rightarrow> string \<Rightarrow> (string \<rightharpoonup> 'v JSValue)" where
  "deleteProperty h key = h(key := None)"

subsection \<open>The collection\<close>

record 'v AssociativeArray =
  priv_array :: "'v JSValue list"
  priv_hash :: "string \<rightharpoonup> 'v JSValue"

definition new_AssociativeArray :: "'v AssociativeArray" where
  "new_AssociativeArray = \<lparr>priv_array = [], priv_hash = Map.empty\<rparr>"

definition AssociativeArray_length :: "'v AssociativeArray \<Rightarrow> nat" where
  "AssociativeArray_length a = length (priv_array a)"

definition AssociativeArray_values :: "'v AssociativeArray \<Rightarrow> 'v JSValue list" where
  "AssociativeArray_values a = priv_array a"

definition AssociativeArray_contains :: "string \<Rightarrow> 'v AssociativeArray \<Rightarrow> bool" where
  "AssociativeArray_contains key a = defined (readProperty (priv_hash a) key)"

definition AssociativeArray_get :: "string \<Rightarrow> 'v AssociativeArray \<Rightarrow> 'v JSValue option" where
  "AssociativeArray_get key a = readProperty (priv_hash a) key"

text \<open>\<open>remove\<close> returns the collection afterwards and whether the key had a value.\<close>

definition AssociativeArray_remove ::
  "string \<Rightarrow> 'v AssociativeArray \<Rightarrow> 'v AssociativeArray \<times> bool" where
  "AssociativeArray_remove key a =
     (let v = readProperty (priv_hash a) key;
          hasValue = defined v
      in if hasValue
         then (a\<lparr>priv_array := splice1 (priv_array a) (indexOf (priv_array a) (the v)),
                  priv_hash := deleteProperty (priv_hash a) key\<rparr>, hasValue)
         else (a, hasValue))"

text \<open>
  In \<open>set\<close> the test \<open>value !== oldValue\<close> holds when the old value is undefined, the
  new value being none of undefined.
\<close>

definition AssociativeArray_set ::
  "string \<Rightarrow> 'v JSValue \<Rightarrow> 'v AssociativeArray \<Rightarrow> 'v AssociativeArray option" where
  "AssociativeArray_set key v a =
     (if (case readProperty (priv_hash a) key of
            None \<Rightarrow> True
          | Some oldValue \<Rightarrow> \<not> strictEquals v oldValue)
      then (let a' = fst (AssociativeArray_remove key a)
            in case writeProperty (priv_hash a') key v of
                 None \<Rightarrow> None
               | Some h \<Rightarrow> Some (a'\<lparr>priv_hash := h, priv_array := priv_array a' @ [v]\<rparr>))
      else Some a)"

definition AssociativeArray_removeAll :: "'v AssociativeArray \<Rightarrow> 'v AssociativeArray" where
  "AssociativeArray_removeAll a =
     (if length (priv_array a) > 0 then a\<lparr>priv_hash := Map.empty, priv_array := []\<rparr> else a)"

subsection \<open>Sequences of operations\<close>

datatype 'v operation = Set string "'v JSValue" | Remove string | RemoveAll

fun perform :: "'v AssociativeArray \<Rightarrow> 'v operation \<Rightarrow> 'v AssociativeArray option" where
  "perform a (Set key v) = AssociativeArray_set key v a"
| "perform a (Remove key) = Some (fst (AssociativeArray_remove key a))"
| "perform a RemoveAll = Some (AssociativeArray_removeAll a)"

fun performFrom :: "'v AssociativeArray \<Rightarrow> 'v operation list \<Rightarrow> 'v AssociativeArray option" where
  "performFrom a [] = Some a"
| "performFrom a (x # xs) =
     (case perform a x of None \<Rightarrow> None | Some a' \<Rightarrow> performFrom a' xs)"

definition performAll :: "'v operation list \<Rightarrow> 'v AssociativeArray option" where
  "performAll ops = performFrom new_AssociativeArray ops"

text \<open>
  An operation is plain when its key is no property name of \<open>Object.prototype\<close> and
  the value it sets, if any, is neither null nor NaN.
\<close>

fun plain :: "'v operation \<Rightarrow> bool" where
  "plain (Set key v) = (key \<notin> set objectPrototypeNames \<and> v \<noteq> Null \<and> v \<noteq> NaN)"
| "plain (Remove key) = (key \<notin> set objectPrototypeNames)"
| "plain RemoveAll = True"

text \<open>
  The keys currently set are the own properties of the hash. The keys a value is
  retrievable under are counted among the keys that are no property names of
  \<open>Object.prototype\<close>.
\<close>

definition keysSet :: "'v AssociativeArray \<Rightarrow> string set" where
  "keysSet a = dom (priv_hash a)"

definition keysOf :: "'v AssociativeArray \<Rightarrow> 'v JSValue \<Rightarrow> string set" where
  "keysOf a v =
     {key. key \<notin> set objectPrototypeNames \<and> AssociativeArray_get key a = Some v}"

text \<open>
  The hash and the array agree: the keys are finitely many and none is a property name
  of \<open>Object.prototype\<close>, no value is null or NaN, and the array holds, in some order,
  one element for every key, the value of that key.
\<close>

definition consistent :: "'v AssociativeArray \<Rightarrow> bool" where
  "consistent a =
     (finite (dom (priv_hash a)) \<and> dom (priv_hash a) \<inter> set objectPrototypeNames = {} \<and>
      NaN \<notin> ran (priv_hash a) \<and> Null \<notin> ran (priv_hash a) \<and>
      mset (priv_array a) =
        image_mset (\<lambda>key. the (priv_hash a key)) (mset_set (dom (priv_hash a))))"

section \<open>Numbers and numeric arrays\<close>

text \<open>
  A JavaScript number is a double. The model keeps a finite number as the real number it
  stands for: comparisons, \<open>Math.min\<close> and \<open>Math.max\<close> are those of the reals, and
  there is neither NaN nor an infinity nor a signed zero.

  The sums and differences of the rectangle union are modelled as the code computes
  them: the sum and the difference of two doubles are the exact results rounded to the
  nearest double, a tie going to the double whose last bit is even. The doubles near
  \<open>x\<close> are
  the multiples of two to the power \<open>ulpExponent x\<close>: they have 53 bits, and none is
  finer than two to the power -1074. A rounded result of two to the power 1024 or more
  is an infinity in the code: the model does not follow infinite numbers and gives
  \<open>None\<close>.
\<close>

definition roundHalfEven :: "real \<Rightarrow> int" where
  "roundHalfEven q =
     (let f = \<lfloor>q\<rfloor>
      in if q - of_int f < 1 / 2 then f
         else if q - of_int f > 1 / 2 then f + 1
         else if even f then f else f + 1)"

definition ulpExponent :: "real \<Rightarrow> int" where
  "ulpExponent x = max (\<lfloor>log 2 \<bar>x\<bar>\<rfloor> - 52) (- 1074)"

definition roundToDouble :: "real \<Rightarrow> real option" where
  "roundToDouble x =
     (if x = 0 then Some 0
      else (let e = ulpExponent x;
                y = of_int (roundHalfEven (x / 2 powi e)) * 2 powi e
            in if \<bar>y\<bar> < 2 ^ 1024 then Some y else None))"

definition addNumbers :: "real \<Rightarrow> real \<Rightarrow> real option" where
  "addNumbers a b = roundToDouble (a + b)"

definition subtractNumbers :: "real \<Rightarrow> real \<Rightarrow> real option" where
  "subtractNumbers a b = roundToDouble (a - b)"

text \<open>
  A \<open>number[]\<close> is a list of slots; \<open>None\<close> is a hole, which reads as undefined. A
  read past the end gives undefined as well. A write at or past the end grows the array,
  leaving holes in between.
\<close>

type_synonym NumberArray = "real option list"

definition load :: "NumberArray \<Rightarrow> nat \<Rightarrow> real option" where
  "load array i = (if i < length array then array ! i else None)"

definition store :: "NumberArray \<Rightarrow> nat \<Rightarrow> real \<Rightarrow> NumberArray" where
  "store array i v =
     (if i < length array then array[i := Some v]
      else array @ replicate (i - length array) None @ [Some v])"

text \<open>The default of an omitted \<open>startingIndex\<close> parameter.\<close>

definition startingIndexOrDefault :: "nat option \<Rightarrow> nat" where
  "startingIndexOrDefault startingIndex = (case startingIndex of None \<Rightarrow> 0 | Some i \<Rightarrow> i)"

section \<open>2x2 matrix (class Matrix2)\<close>

text \<open>
  The class is the third of the classes in the source part unnamed/part_005. A matrix
  holds the four elements \<open>this[0]\<close> to \<open>this[3]\<close>, in column-major order.
\<close>

record Matrix2 =
  m2_0 :: real
  m2_1 :: real
  m2_2 :: real
  m2_3 :: real

text \<open>The constructor takes its arguments in row-major order.\<close>

definition new_Matrix2 :: "real \<Rightarrow> real \<Rightarrow> real \<Rightarrow> real \<Rightarrow> Matrix2" where
  "new_Matrix2 column0Row0 column1Row0 column0Row1 column1Row1 =
     \<lparr>m2_0 = column0Row0, m2_1 = column0Row1, m2_2 = column1Row0, m2_3 = column1Row1\<rparr>"

definition Matrix2_pack :: "Matrix2 \<Rightarrow> NumberArray \<Rightarrow> nat option \<Rightarrow> NumberArray" where
  "Matrix2_pack v array startingIndex =
     (let i = startingIndexOrDefault startingIndex;
          array = store array i (m2_0 v);
          array = store array (i + 1) (m2_1 v);
          array = store array (i + 2) (m2_2 v);
          array = store array (i + 3) (m2_3 v)
      in array)"

text \<open>
  \<open>unpack\<close> copies four slots into the result object. Where a slot read is undefined the
  object is left with an undefined element and is not a matrix of numbers: the model
  then gives \<open>None\<close>.
\<close>

definition Matrix2_unpack :: "NumberArray \<Rightarrow> nat option \<Rightarrow> Matrix2 option \<Rightarrow> Matrix2 option" where
  "Matrix2_unpack array startingIndex result =
     (let i = startingIndexOrDefault startingIndex;
          result = (case result of None \<Rightarrow> new_Matrix2 0 0 0 0 | Some r \<Rightarrow> r)
      in case (load array i, load array (i + 1), load array (i + 2), load array (i + 3)) of
           (Some a, Some b, Some c, Some d) \<Rightarrow>
             Some (result\<lparr>m2_0 := a, m2_1 := b, m2_2 := c, m2_3 := d\<rparr>)
         | _ \<Rightarrow> None)"

text \<open>
  The argument of \<open>clone\<close> is matrix-like (interface Matrix2Like): any object read by
  index, such as an array of numbers or a matrix; an index it holds no number at reads
  as undefined. A matrix passed as such an argument reads as its four elements.
\<close>

type_synonym Matrix2Like = NumberArray

definition asMatrix2Like :: "Matrix2 \<Rightarrow> Matrix2Like" where
  "asMatrix2Like m = [Some (m2_0 m), Some (m2_1 m), Some (m2_2 m), Some (m2_3 m)]"

text \<open>
  A matrix object as \<open>clone\<close> may leave it: the in-place path copies what it reads,
  so an element of the result may hold undefined, here \<open>None\<close>.
\<close>

record Matrix2Object =
  at0 :: "real option"
  at1 :: "real option"
  at2 :: "real option"
  at3 :: "real option"

definition asMatrix2Object :: "Matrix2 \<Rightarrow> Matrix2Object" where
  "asMatrix2Object m =
     \<lparr>at0 = Some (m2_0 m), at1 = Some (m2_1 m), at2 = Some (m2_2 m), at3 = Some (m2_3 m)\<rparr>"

text \<open>
  The constructor called with arguments that may be undefined: each parameter has the
  default \<open>0.0\<close>, which an undefined argument takes.
\<close>

definition new_Matrix2_of :: "real option \<Rightarrow> real option \<Rightarrow> real option \<Rightarrow> real option \<Rightarrow> Matrix2" where
  "new_Matrix2_of column0Row0 column1Row0 column0Row1 column1Row1 =
     new_Matrix2 (case column0Row0 of None \<Rightarrow> 0 | Some v \<Rightarrow> v)
       (case column1Row0 of None \<Rightarrow> 0 | Some v \<Rightarrow> v)
       (case column0Row1 of None \<Rightarrow> 0 | Some v \<Rightarrow> v)
       (case column1Row1 of None \<Rightarrow> 0 | Some v \<Rightarrow> v)"

text \<open>\<open>clone\<close> of an undefined matrix is undefined.\<close>

definition Matrix2_clone :: "Matrix2Like option \<Rightarrow> Matrix2Object option \<Rightarrow> Matrix2Object option" where
  "Matrix2_clone matrix result =
     (case matrix of
        None \<Rightarrow> None
      | Some m \<Rightarrow>
          (case result of
             None \<Rightarrow>
               Some (asMatrix2Object (new_Matrix2_of (load m 0) (load m 2) (load m 1) (load m 3)))
           | Some r \<Rightarrow>
               Some (r\<lparr>at0 := load m 0, at1 := load m 1, at2 := load m 2, at3 := load m 3\<rparr>)))"

text \<open>The four elements a matrix-like argument is read at are all defined.\<close>

definition fourNumbers :: "Matrix2Like \<Rightarrow> bool" where
  "fourNumbers m =
     (load m 0 \<noteq> None \<and> load m 1 \<noteq> None \<and> load m 2 \<noteq> None \<and> load m 3 \<noteq> None)"

section \<open>Distance display condition (class DistanceDisplayCondition)\<close>

text \<open>
  The class is the second of the classes in the source file
  packages/engine/Source/Core/AssociativeArray.ts.
\<close>

record DistanceDisplayCondition =
  ddc_near :: real
  ddc_far :: real

text \<open>\<open>Number.MAX_VALUE\<close>, the largest finite double.\<close>

definition MAX_VALUE :: real where
  "MAX_VALUE = (2 ^ 53 - 1) * 2 ^ 971"

definition new_DistanceDisplayCondition :: "real option \<Rightarrow> real option \<Rightarrow> DistanceDisplayCondition" where
  "new_DistanceDisplayCondition near far =
     \<lparr>ddc_near = (case near of None \<Rightarrow> 0 | Some v \<Rightarrow> v),
      ddc_far = (case far of None \<Rightarrow> MAX_VALUE | Some v \<Rightarrow> v)\<rparr>"

definition DistanceDisplayCondition_pack ::
  "DistanceDisplayCondition \<Rightarrow> NumberArray \<Rightarrow> nat option \<Rightarrow> NumberArray" where
  "DistanceDisplayCondition_pack v array startingIndex =
     (let i = startingIndexOrDefault startingIndex;
          array = store array i (ddc_near v);
          array = store array (i + 1) (ddc_far v)
      in array)"

definition DistanceDisplayCondition_unpack ::
  "NumberArray \<Rightarrow> nat option \<Rightarrow> DistanceDisplayCondition option \<Rightarrow> DistanceDisplayCondition option" where
  "DistanceDisplayCondition_unpack array startingIndex result =
     (let i = startingIndexOrDefault startingIndex;
          result = (case result of None \<Rightarrow> new_DistanceDisplayCondition None None | Some r \<Rightarrow> r)
      in case (load array i, load array (i + 1)) of
           (Some a, Some b) \<Rightarrow> Some (result\<lparr>ddc_near := a, ddc_far := b\<rparr>)
         | _ \<Rightarrow> None)"

section \<open>Bounding rectangle (class BoundingRectangle)\<close>

record BoundingRectangle =
  br_x :: real
  br_y :: real
  br_width :: real
  br_height :: real

definition new_BoundingRectangle :: "real \<Rightarrow> real \<Rightarrow> real \<Rightarrow> real \<Rightarrow> BoundingRectangle" where
  "new_BoundingRectangle x y width height =
     \<lparr>br_x = x, br_y = y, br_width = width, br_height = height\<rparr>"

definition BoundingRectangle_pack ::
  "BoundingRectangle \<Rightarrow> NumberArray \<Rightarrow> nat option \<Rightarrow> NumberArray" where
  "BoundingRectangle_pack v array startingIndex =
     (let i = startingIndexOrDefault startingIndex;
          array = store array i (br_x v);
          array = store array (i + 1) (br_y v);
          array = store array (i + 2) (br_width v);
          array = store array (i + 3) (br_height v)
      in array)"

definition BoundingRectangle_unpack ::
  "NumberArray \<Rightarrow> nat option \<Rightarrow> BoundingRectangle option \<Rightarrow> BoundingRectangle option" where
  "BoundingRectangle_unpack array startingIndex result =
     (let i = startingIndexOrDefault startingIndex;
          result = (case result of None \<Rightarrow> new_BoundingRectangle 0 0 0 0 | Some r \<Rightarrow> r)
      in case (load array i, load array (i + 1), load array (i + 2), load array (i + 3)) of
           (Some a, Some b, Some c, Some d) \<Rightarrow>
             Some (result\<lparr>br_x := a, br_y := b, br_width := c, br_height := d\<rparr>)
         | _ \<Rightarrow> None)"

definition BoundingRectangle_clone ::
  "BoundingRectangle option \<Rightarrow> BoundingRectangle option \<Rightarrow> BoundingRectangle option" where
  "BoundingRectangle_clone rectangle result =
     (case rectangle of
        None \<Rightarrow> None
      | Some v \<Rightarrow>
          (case result of
             None \<Rightarrow> Some (new_BoundingRectangle (br_x v) (br_y v) (br_width v) (br_height v))
           | Some r \<Rightarrow>
               Some (r\<lparr>br_x := br_x v, br_y := br_y v, br_width := br_width v,
                       br_height := br_height v\<rparr>)))"

text \<open>
  \<open>union\<close>. Its four sums and two differences are sums and differences of doubles,
  each rounded; the result is \<open>None\<close> where one of them is infinite.
\<close>

definition BoundingRectangle_union ::
  "BoundingRectangle \<Rightarrow> BoundingRectangle \<Rightarrow> BoundingRectangle option \<Rightarrow>
   BoundingRectangle option" where
  "BoundingRectangle_union left right result =
     (let result = (case result of None \<Rightarrow> new_BoundingRectangle 0 0 0 0 | Some r \<Rightarrow> r);
          lowerLeftX = min (br_x left) (br_x right);
          lowerLeftY = min (br_y left) (br_y right)
      in case (addNumbers (br_x left) (br_width left), addNumbers (br_x right) (br_width right),
               addNumbers (br_y left) (br_height left),
               addNumbers (br_y right) (br_height right)) of
           (Some leftRight, Some rightRight, Some leftTop, Some rightTop) \<Rightarrow>
             (let upperRightX = max leftRight rightRight;
                  upperRightY = max leftTop rightTop
              in case (subtractNumbers upperRightX lowerLeftX,
                       subtractNumbers upperRightY lowerLeftY) of
                   (Some width, Some height) \<Rightarrow>
                     Some (result\<lparr>br_x := lowerLeftX, br_y := lowerLeftY,
                                  br_width := width, br_height := height\<rparr>)
                 | _ \<Rightarrow> None)
         | _ \<Rightarrow> None)"

text \<open>
  The sums and differences that \<open>union\<close> takes of two rectangles are computed without
  rounding: each rounded result is the exact one.
\<close>

definition unionExact :: "BoundingRectangle \<Rightarrow> BoundingRectangle \<Rightarrow> bool" where
  "unionExact left right =
     (addNumbers (br_x left) (br_width left) = Some (br_x left + br_width left) \<and>
      addNumbers (br_x right) (br_width right) = Some (br_x right + br_width right) \<and>
      addNumbers (br_y left) (br_height left) = Some (br_y left + br_height left) \<and>
      addNumbers (br_y right) (br_height right) = Some (br_y right + br_height right) \<and>
      subtractNumbers (max (br_x left + br_width left) (br_x right + br_width right))
          (min (br_x left) (br_x right))
        = Some (max (br_x left + br_width left) (br_x right + br_width right)
                - min (br_x left) (br_x right)) \<and>
      subtractNumbers (max (br_y left + br_height left) (br_y right + br_height right))
          (min (br_y left) (br_y right))
        = Some (max (br_y left + br_height left) (br_y right + br_height right)
                - min (br_y left) (br_y right)))"

text \<open>The four corners of a rectangle, and whether a point lies within its extent.\<close>

definition corners :: "BoundingRectangle \<Rightarrow> (real \<times> real) list" where
  "corners r =
     [(br_x r, br_y r), (br_x r + br_width r, br_y r),
      (br_x r, br_y r + br_height r), (br_x r + br_width r, br_y r + br_height r)]"

definition withinExtent :: "BoundingRectangle \<Rightarrow> real \<times> real \<Rightarrow> bool" where
  "withinExtent r p =
     (br_x r \<le> fst p \<and> fst p \<le> br_x r + br_width r \<and>
      br_y r \<le> snd p \<and> snd p \<le> br_y r + br_height r)"

text \<open>A rectangle of negative width, and a rectangle to its right.\<close>

definition degenerateRectangle :: BoundingRectangle where
  "degenerateRectangle = new_BoundingRectangle 0 0 (- 5) 0"

definition farRectangle :: BoundingRectangle where
  "farRectangle = new_BoundingRectangle 10 0 1 0"

text \<open>
  A point left of the origin, as a rectangle without size, and a rectangle from the
  origin whose width is two to the power 53.
\<close>

definition pointRectangle :: BoundingRectangle where
  "pointRectangle = new_BoundingRectangle (- 1) 0 0 0"

definition wideRectangle :: BoundingRectangle where
  "wideRectangle = new_BoundingRectangle 0 0 (2 ^ 53) 0"

section \<open>Three-dimensional vectors\<close>

text \<open>
  Modelled from the spec: Cartesian3. The vector type is imported by the bounding box and
  by the geodetic conversion but its file is not part of the sources at hand. A vector
  is three ordered numeric components; the operations used here are the componentwise
  product, the difference, the dot product, the magnitude, the midpoint of two points,
  and normalisation, which for a vector of length zero is a failure of the runtime-error
  class in a validated build.
\<close>

record Cartesian3 =
  c3_x :: real
  c3_y :: real
  c3_z :: real

definition Cartesian3_ZERO :: Cartesian3 where
  "Cartesian3_ZERO = \<lparr>c3_x = 0, c3_y = 0, c3_z = 0\<rparr>"

definition Cartesian3_midpoint :: "Cartesian3 \<Rightarrow> Cartesian3 \<Rightarrow> Cartesian3" where
  "Cartesian3_midpoint left right =
     \<lparr>c3_x = (c3_x left + c3_x right) * 0.5, c3_y = (c3_y left + c3_y right) * 0.5,
      c3_z = (c3_z left + c3_z right) * 0.5\<rparr>"

definition Cartesian3_multiplyComponents :: "Cartesian3 \<Rightarrow> Cartesian3 \<Rightarrow> Cartesian3" where
  "Cartesian3_multiplyComponents left right =
     \<lparr>c3_x = c3_x left * c3_x right, c3_y = c3_y left * c3_y right,
      c3_z = c3_z left * c3_z right\<rparr>"

definition Cartesian3_subtract :: "Cartesian3 \<Rightarrow> Cartesian3 \<Rightarrow> Cartesian3" where
  "Cartesian3_subtract left right =
     \<lparr>c3_x = c3_x left - c3_x right, c3_y = c3_y left - c3_y right,
      c3_z = c3_z left - c3_z right\<rparr>"

definition Cartesian3_dot :: "Cartesian3 \<Rightarrow> Cartesian3 \<Rightarrow> real" where
  "Cartesian3_dot left right =
     c3_x left * c3_x right + c3_y left * c3_y right + c3_z left * c3_z right"

definition Cartesian3_magnitude :: "Cartesian3 \<Rightarrow> real" where
  "Cartesian3_magnitude v = sqrt (c3_x v * c3_x v + c3_y v * c3_y v + c3_z v * c3_z v)"

definition Cartesian3_normalize :: "Cartesian3 \<Rightarrow> error + Cartesian3" where
  "Cartesian3_normalize v =
     (let magnitude = Cartesian3_magnitude v
      in if magnitude = 0 then Inl RuntimeError
         else Inr \<lparr>c3_x = c3_x v / magnitude, c3_y = c3_y v / magnitude,
                   c3_z = c3_z v / magnitude\<rparr>)"

section \<open>Axis-aligned bounding box (class AxisAlignedBoundingBox)\<close>

record AxisAlignedBoundingBox =
  minimum :: Cartesian3
  maximum :: Cartesian3
  center :: Cartesian3

text \<open>The constructor called without arguments, as \<open>fromPoints\<close> calls it.\<close>

definition new_AxisAlignedBoundingBox :: AxisAlignedBoundingBox where
  "new_AxisAlignedBoundingBox =
     \<lparr>minimum = Cartesian3_ZERO, maximum = Cartesian3_ZERO,
      center = Cartesian3_midpoint Cartesian3_ZERO Cartesian3_ZERO\<rparr>"

text \<open>
  The six running extremes of the scan, and the body of its loop over the positions
  after the first.
\<close>

record Extremes =
  minimumX :: real
  minimumY :: real
  minimumZ :: real
  maximumX :: real
  maximumY :: real
  maximumZ :: real

fun scanPositions :: "Cartesian3 list \<Rightarrow> Extremes \<Rightarrow> Extremes" where
  "scanPositions [] e = e"
| "scanPositions (p # ps) e =
     scanPositions ps
       \<lparr>minimumX = min (c3_x p) (minimumX e), minimumY = min (c3_y p) (minimumY e),
        minimumZ = min (c3_z p) (minimumZ e), maximumX = max (c3_x p) (maximumX e),
        maximumY = max (c3_y p) (maximumY e), maximumZ = max (c3_z p) (maximumZ e)\<rparr>"

definition AxisAlignedBoundingBox_fromPoints ::
  "Cartesian3 list option \<Rightarrow> AxisAlignedBoundingBox option \<Rightarrow> AxisAlignedBoundingBox" where
  "AxisAlignedBoundingBox_fromPoints positions result =
     (let result = (case result of None \<Rightarrow> new_AxisAlignedBoundingBox | Some r \<Rightarrow> r)
      in case positions of
           None \<Rightarrow>
             result\<lparr>minimum := Cartesian3_ZERO, maximum := Cartesian3_ZERO,
                    center := Cartesian3_ZERO\<rparr>
         | Some [] \<Rightarrow>
             result\<lparr>minimum := Cartesian3_ZERO, maximum := Cartesian3_ZERO,
                    center := Cartesian3_ZERO\<rparr>
         | Some (p0 # ps) \<Rightarrow>
             (let e = scanPositions ps
                        \<lparr>minimumX = c3_x p0, minimumY = c3_y p0, minimumZ = c3_z p0,
                         maximumX = c3_x p0, maximumY = c3_y p0, maximumZ = c3_z p0\<rparr>;
                  lo = (minimum result)
                         \<lparr>c3_x := minimumX e, c3_y := minimumY e, c3_z := minimumZ e\<rparr>;
                  hi = (maximum result)
                         \<lparr>c3_x := maximumX e, c3_y := maximumY e, c3_z := maximumZ e\<rparr>
              in result\<lparr>minimum := lo, maximum := hi, center := Cartesian3_midpoint lo hi\<rparr>))"

text \<open>A point lies in a box when each coordinate lies between the two corners'.\<close>

definition encloses :: "AxisAlignedBoundingBox \<Rightarrow> Cartesian3 \<Rightarrow> bool" where
  "encloses box p =
     (c3_x (minimum box) \<le> c3_x p \<and> c3_x p \<le> c3_x (maximum box) \<and>
      c3_y (minimum box) \<le> c3_y p \<and> c3_y p \<le> c3_y (maximum box) \<and>
      c3_z (minimum box) \<le> c3_z p \<and> c3_z p \<le> c3_z (maximum box))"

text \<open>The box of an empty list of points.\<close>

definition zeroBox :: AxisAlignedBoundingBox where
  "zeroBox = \<lparr>minimum = Cartesian3_ZERO, maximum = Cartesian3_ZERO, center = Cartesian3_ZERO\<rparr>"

section \<open>Geodetic coordinates (class Cartographic)\<close>

record Cartographic =
  longitude :: real
  latitude :: real
  height :: real

definition new_Cartographic :: "real \<Rightarrow> real \<Rightarrow> real \<Rightarrow> Cartographic" where
  "new_Cartographic lon lat h = \<lparr>longitude = lon, latitude = lat, height = h\<rparr>"

text \<open>The interface EllipsoidLike; \<open>_centerToleranceSquared\<close> loses its underscore.\<close>

record EllipsoidLike =
  oneOverRadii :: Cartesian3
  oneOverRadiiSquared :: Cartesian3
  centerToleranceSquared :: real

text \<open>
  The static defaults of the class. \<open>CesiumMath.EPSILON1\<close> is a constant of a file that
  is not part of the sources at hand; its name gives its value.
\<close>

definition EPSILON1 :: real where
  "EPSILON1 = 0.1"

definition Cartographic_ellipsoidOneOverRadii :: Cartesian3 where
  "Cartographic_ellipsoidOneOverRadii =
     \<lparr>c3_x = 1 / 6378137, c3_y = 1 / 6378137, c3_z = 1 / 6356752.3142451793\<rparr>"

definition Cartographic_ellipsoidOneOverRadiiSquared :: Cartesian3 where
  "Cartographic_ellipsoidOneOverRadiiSquared =
     \<lparr>c3_x = 1 / (6378137 * 6378137), c3_y = 1 / (6378137 * 6378137),
      c3_z = 1 / (6356752.3142451793 * 6356752.3142451793)\<rparr>"

definition Cartographic_ellipsoidCenterToleranceSquared :: real where
  "Cartographic_ellipsoidCenterToleranceSquared = EPSILON1"

text \<open>
  \<open>Math.atan2\<close> in exact arithmetic, and \<open>CesiumMath.sign\<close> (of a file that is not
  part of the sources at hand): 1, -1 or 0 with the sign of the argument.
\<close>

definition atan2 :: "real \<Rightarrow> real \<Rightarrow> real" where
  "atan2 y x =
     (if x > 0 then arctan (y / x)
      else if x < 0 then (if y \<ge> 0 then arctan (y / x) + pi else arctan (y / x) - pi)
      else if y > 0 then pi / 2 else if y < 0 then - (pi / 2) else 0)"

definition CesiumMath_sign :: "real \<Rightarrow> real" where
  "CesiumMath_sign v = (if v = 0 then 0 else if v > 0 then 1 else - 1)"

text \<open>
  The position is within the centre tolerance: its squared distance from the centre of
  the ellipsoid, measured in units of the radii, is below the squared tolerance.
\<close>

definition withinCenterTolerance :: "Cartesian3 \<Rightarrow> Cartesian3 \<Rightarrow> real \<Rightarrow> bool" where
  "withinCenterTolerance cartesian oneOverRadii' centerToleranceSquared' =
     (let scaled = Cartesian3_multiplyComponents cartesian oneOverRadii'
      in Cartesian3_dot scaled scaled < centerToleranceSquared')"

text \<open>
  Modelled from the spec: scaleToGeodeticSurface. The function is imported by
  Cartographic.ts but its file is not part of the sources at hand. It finds the closest
  point on the ellipsoid surface, and there is no result if the input is within a small
  tolerance of the ellipsoid's centre. The iteration that finds the closest point is not
  described; it is the first argument.
\<close>

definition scaleToGeodeticSurface ::
  "(Cartesian3 \<Rightarrow> Cartesian3 \<Rightarrow> Cartesian3 \<Rightarrow> Cartesian3) \<Rightarrow>
   Cartesian3 \<Rightarrow> Cartesian3 \<Rightarrow> Cartesian3 \<Rightarrow> real \<Rightarrow> Cartesian3 option" where
  "scaleToGeodeticSurface closestPoint cartesian oneOverRadii' oneOverRadiiSquared'
       centerToleranceSquared' =
     (if withinCenterTolerance cartesian oneOverRadii' centerToleranceSquared' then None
      else Some (closestPoint cartesian oneOverRadii' oneOverRadiiSquared'))"

text \<open>A point lies on the surface of the ellipsoid with the given inverse squared radii.\<close>

definition onEllipsoid :: "Cartesian3 \<Rightarrow> Cartesian3 \<Rightarrow> bool" where
  "onEllipsoid p oneOverRadiiSquared' =
     (c3_x p * c3_x p * c3_x oneOverRadiiSquared' +
      c3_y p * c3_y p * c3_y oneOverRadiiSquared' +
      c3_z p * c3_z p * c3_z oneOverRadiiSquared' = 1)"

text \<open>
  \<open>fromCartesian\<close>, with the surface projection it calls as its first argument. The
  result is \<open>Inr None\<close> for the return of undefined, \<open>Inl\<close> for an exception.
\<close>

definition Cartographic_fromCartesian ::
  "(Cartesian3 \<Rightarrow> Cartesian3 \<Rightarrow> Cartesian3 \<Rightarrow> real \<Rightarrow> Cartesian3 option) \<Rightarrow>
   Cartesian3 \<Rightarrow> EllipsoidLike option \<Rightarrow> Cartographic option \<Rightarrow> error + Cartographic option" where
  "Cartographic_fromCartesian scale cartesian ellipsoid result =
     (let oneOverRadii' = (case ellipsoid of Some e \<Rightarrow> oneOverRadii e
                            | None \<Rightarrow> Cartographic_ellipsoidOneOverRadii);
          oneOverRadiiSquared' = (case ellipsoid of Some e \<Rightarrow> oneOverRadiiSquared e
                                   | None \<Rightarrow> Cartographic_ellipsoidOneOverRadiiSquared);
          centerToleranceSquared' = (case ellipsoid of Some e \<Rightarrow> centerToleranceSquared e
                                      | None \<Rightarrow> Cartographic_ellipsoidCenterToleranceSquared)
      in case scale cartesian oneOverRadii' oneOverRadiiSquared' centerToleranceSquared' of
           None \<Rightarrow> Inr None
         | Some p \<Rightarrow>
             (case Cartesian3_normalize (Cartesian3_multiplyComponents p oneOverRadiiSquared') of
                Inl e \<Rightarrow> Inl e
              | Inr n \<Rightarrow>
                  (let h = Cartesian3_subtract cartesian p;
                       lon = atan2 (c3_y n) (c3_x n);
                       lat = arcsin (c3_z n);
                       heightValue = CesiumMath_sign (Cartesian3_dot h cartesian)
                                       * Cartesian3_magnitude h
                   in case result of
                        None \<Rightarrow> Inr (Some (new_Cartographic lon lat heightValue))
                      | Some r \<Rightarrow>
                          Inr (Some (r\<lparr>longitude := lon, latitude := lat,
                                       height := heightValue\<rparr>)))))"

text \<open>The ellipsoid a call works with: the argument, or the static defaults.\<close>

definition effectiveEllipsoid :: "EllipsoidLike option \<Rightarrow> EllipsoidLike" where
  "effectiveEllipsoid ellipsoid =
     (case ellipsoid of
        Some e \<Rightarrow> e
      | None \<Rightarrow>
          \<lparr>oneOverRadii = Cartographic_ellipsoidOneOverRadii,
           oneOverRadiiSquared = Cartographic_ellipsoidOneOverRadiiSquared,
           centerToleranceSquared = Cartographic_ellipsoidCenterToleranceSquared\<rparr>)"

text \<open>The unit sphere, and the radial projection onto it.\<close>

definition unitSphere :: EllipsoidLike where
  "unitSphere =
     \<lparr>oneOverRadii = \<lparr>c3_x = 1, c3_y = 1, c3_z = 1\<rparr>,
      oneOverRadiiSquared = \<lparr>c3_x = 1, c3_y = 1, c3_z = 1\<rparr>,
      centerToleranceSquared = EPSILON1\<rparr>"

definition radialProjection :: "Cartesian3 \<Rightarrow> Cartesian3 \<Rightarrow> Cartesian3 \<Rightarrow> Cartesian3" where
  "radialProjection cartesian oneOverRadii' oneOverRadiiSquared' =
     \<lparr>c3_x = c3_x cartesian / Cartesian3_magnitude cartesian,
      c3_y = c3_y cartesian / Cartesian3_magnitude cartesian,
      c3_z = c3_z cartesian / Cartesian3_magnitude cartesian\<rparr>"

text \<open>A position on the equator of the unit sphere, one radius above the surface.\<close>

definition aboveEquator :: Cartesian3 where
  "aboveEquator = \<lparr>c3_x = 2, c3_y = 0, c3_z = 0\<rparr>"

section \<open>Properties of the clock\<close>

lemma loopStop_return:
  "\<not> stop < cur \<Longrightarrow> loopStop start stop cur raised = Some (cur, raised)"
  by (subst loopStop.simps) (simp add: JulianDate_greaterThan_def)

lemma loopStop_wrap:
  "stop < cur \<Longrightarrow>
   loopStop start stop cur raised = loopStop start stop (start + (cur - stop)) (Suc raised)"
  by (subst loopStop.simps)
    (simp add: JulianDate_greaterThan_def JulianDate_addSeconds_def
      JulianDate_secondsDifference_def)

text \<open>
  C1. The loop scenario: start \<open>T0\<close>, stop \<open>T0 + 10\<close>, LOOP_STOP, TICK_DEPENDENT,
  multiplier 25, animating, current time \<open>T0\<close>. One call of \<open>tick\<close> returns, leaves
  the current time at \<open>T0 + 5\<close>, and raises the stop event exactly twice.
\<close>

theorem tick_loop_scenario:
  "tick timestamp now (scenarioClock T0 LOOP_STOP 25 previous) =
     Some \<lparr>clock = (scenarioClock T0 LOOP_STOP 25 previous)
                      \<lparr>currentTime := T0 + 5, lastSystemTime := timestamp\<rparr>,
           returned = T0 + 5, onStopRaised = 2, onTickRaised = 1\<rparr>"
  by (simp add: tick_def scenarioClock_def advance_def finish_def JulianDate_addSeconds_def
      JulianDate_lessThan_def loopStop_wrap loopStop_return)

text \<open>
  C2. The clamp scenario: as before with CLAMPED and multiplier 100. The step advances
  the time by 100 seconds, to \<open>T0 + 100\<close>; the call of \<open>tick\<close> leaves the current time
  at the stop time \<open>T0 + 10\<close> and raises the stop event exactly once.
\<close>

theorem tick_clamp_scenario:
  "advance timestamp (scenarioClock T0 CLAMPED 100 previous) = T0 + 100 \<and>
   tick timestamp now (scenarioClock T0 CLAMPED 100 previous) =
     Some \<lparr>clock = (scenarioClock T0 CLAMPED 100 previous)
                      \<lparr>currentTime := T0 + 10, lastSystemTime := timestamp\<rparr>,
           returned = T0 + 10, onStopRaised = 1, onTickRaised = 1\<rparr>"
  by (simp add: tick_def scenarioClock_def advance_def finish_def JulianDate_addSeconds_def
      JulianDate_lessThan_def JulianDate_greaterThan_def)

text \<open>
  C3, as the claim states it, fails: a clock that follows the system clock keeps doing
  so when a setter is given the value the property already holds.
\<close>

theorem setters_same_value_counterexample:
  "clockStep systemClock = SYSTEM_CLOCK \<and>
   clockStep (set_multiplier 1 systemClock) = SYSTEM_CLOCK \<and>
   clockStep (set_shouldAnimate True systemClock) = SYSTEM_CLOCK \<and>
   clockStep (set_currentTime 0 systemClock) = SYSTEM_CLOCK"
  by (simp add: systemClock_def set_clockStep_def set_multiplier_def set_shouldAnimate_def
      set_currentTime_def scenarioClock_def JulianDate_equals_def)

text \<open>
  C3, amended. For a clock whose step mode is SYSTEM_CLOCK, assigning to the current
  time, the multiplier or the animation flag a value other than the one it holds stores
  the value and changes the step mode to SYSTEM_CLOCK_MULTIPLIER, and assigning the value
  it holds changes nothing. For every clock, assigning SYSTEM_CLOCK to the step mode sets
  the multiplier to 1, the animation flag to true and the current time to the system
  time.
\<close>

theorem setters_coupling:
  assumes "clockStep c = SYSTEM_CLOCK"
  shows "set_currentTime t c =
           (if t = currentTime c then c
            else c\<lparr>currentTime := t, clockStep := SYSTEM_CLOCK_MULTIPLIER\<rparr>) \<and>
         set_multiplier m c =
           (if m = multiplier c then c
            else c\<lparr>multiplier := m, clockStep := SYSTEM_CLOCK_MULTIPLIER\<rparr>) \<and>
         set_shouldAnimate b c =
           (if b = shouldAnimate c then c
            else c\<lparr>shouldAnimate := b, clockStep := SYSTEM_CLOCK_MULTIPLIER\<rparr>) \<and>
         set_clockStep now SYSTEM_CLOCK c' =
           c'\<lparr>multiplier := 1, shouldAnimate := True, currentTime := now,
              clockStep := SYSTEM_CLOCK\<rparr>"
  using assms
  by (auto simp add: set_currentTime_def set_multiplier_def set_shouldAnimate_def
      set_clockStep_def JulianDate_equals_def)

theorem setters_coupling_witness:
  "clockStep systemClock = SYSTEM_CLOCK \<and>
   clockStep (set_multiplier 2 systemClock) = SYSTEM_CLOCK_MULTIPLIER \<and>
   multiplier (set_multiplier 2 systemClock) = 2 \<and>
   set_multiplier 1 systemClock = systemClock"
proof -
  have h: "clockStep systemClock = SYSTEM_CLOCK"
    by (simp add: systemClock_def set_clockStep_def)
  have "multiplier systemClock = 1"
    by (simp add: systemClock_def set_clockStep_def)
  with h setters_coupling [OF h, of _ 2] setters_coupling [OF h, of _ 1]
  show ?thesis by simp
qed

lemma loopStop_returns_not_when_zero_length:
  assumes ret: "loopStop start stop cur raised = Some r"
  shows "\<not> (start = stop \<and> stop < cur)"
proof (rule loopStop.raw_induct
    [where P = "\<lambda>a b c d y. \<not> (a = b \<and> b < c)", OF _ ret])
  fix f :: "real \<Rightarrow> real \<Rightarrow> real \<Rightarrow> nat \<Rightarrow> (real \<times> nat) option"
  fix a b c :: real and d :: nat and y :: "real \<times> nat"
  assume IH: "\<And>a b c d y. f a b c d = Some y \<Longrightarrow> \<not> (a = b \<and> b < c)"
  assume body: "(if JulianDate_greaterThan c b
        then f a b (JulianDate_addSeconds a (JulianDate_secondsDifference c b)) (d + 1)
        else Some (c, d)) = Some y"
  show "\<not> (a = b \<and> b < c)"
  proof
    assume h: "a = b \<and> b < c"
    with body have "f a b (a + (c - b)) (d + 1) = Some y"
      by (simp add: JulianDate_greaterThan_def JulianDate_addSeconds_def
          JulianDate_secondsDifference_def)
    from IH[OF this] h show False by simp
  qed
qed

lemma loopStop_diverges:
  "start = stop \<Longrightarrow> stop < cur \<Longrightarrow> loopStop start stop cur raised = None"
  using loopStop_returns_not_when_zero_length [of start stop cur raised]
  by (cases "loopStop start stop cur raised") auto

text \<open>
  C9. The constructor makes a looping clock whose start and stop times coincide, its
  check being satisfied, and \<open>tick\<close> does not return on that clock: the step carries
  the time past the stop time and each round of the wrap loop maps the time to itself.
\<close>

theorem tick_diverges_on_zero_length_loop:
  "new_Clock 0 now zeroLengthOptions = Inr zeroLengthClock \<and>
   startTime zeroLengthClock \<le> stopTime zeroLengthClock \<and>
   tick timestamp now' zeroLengthClock = None"
proof -
  have "new_Clock 0 now zeroLengthOptions = Inr zeroLengthClock"
    by (simp add: new_Clock_def zeroLengthOptions_def zeroLengthClock_def
        JulianDate_greaterThan_def JulianDate_equals_def set_currentTime_def
        set_multiplier_def set_shouldAnimate_def set_clockStep_def)
  moreover have "tick timestamp now' zeroLengthClock = None"
    by (simp add: tick_def zeroLengthClock_def advance_def JulianDate_addSeconds_def
        JulianDate_lessThan_def loopStop_diverges)
  ultimately show ?thesis by (simp add: zeroLengthClock_def)
qed

lemma loopStop_terminates:
  "start < stop \<Longrightarrow> nat \<lceil>(cur - stop) / (stop - start)\<rceil> = k \<Longrightarrow>
   \<exists>t m. loopStop start stop cur raised = Some (t, m) \<and> t \<le> stop"
proof (induction k arbitrary: cur raised)
  case 0
  then have "\<lceil>(cur - stop) / (stop - start)\<rceil> \<le> 0" by simp
  then have "(cur - stop) / (stop - start) \<le> 0" by (simp add: ceiling_le_iff)
  with 0(1) have "cur \<le> stop" by (simp add: divide_le_0_iff)
  then show ?case by (simp add: loopStop_return)
next
  case (Suc k)
  show ?case
  proof (cases "stop < cur")
    case False
    then show ?thesis by (simp add: loopStop_return)
  next
    case True
    let ?c = "start + (cur - stop)"
    have "(?c - stop) / (stop - start) = (cur - stop) / (stop - start) - 1"
      using Suc.prems(1) by (simp add: field_simps)
    then have "nat \<lceil>(?c - stop) / (stop - start)\<rceil> = k"
      using Suc.prems(2) by simp
    from Suc.IH[OF Suc.prems(1) this, of "Suc raised"] show ?thesis
      using True by (simp add: loopStop_wrap)
  qed
qed

text \<open>
  What does hold: with the start time strictly before the stop time, \<open>tick\<close> returns
  for every clock state.
\<close>

lemma tick_returns_when_start_before_stop:
  assumes "startTime c < stopTime c"
  shows "\<exists>r. tick timestamp now c = Some r"
proof -
  obtain t m where "loopStop (startTime c) (stopTime c)
      (if JulianDate_lessThan (advance timestamp c) (startTime c) then startTime c
       else advance timestamp c) 0 = Some (t, m)"
    using loopStop_terminates [OF assms refl] by blast
  then show ?thesis by (simp add: tick_def Let_def)
qed

section \<open>Properties of the associative array\<close>

lemma splice1_Cons_Suc: "0 \<le> i \<Longrightarrow> splice1 (x # xs) (i + 1) = x # splice1 xs i"
  by (simp add: splice1_def Let_def nat_add_distrib min_def)

lemma splice1_Cons_0: "splice1 (x # xs) 0 = xs"
  by (simp add: splice1_def)

lemma indexOf_found: "v \<noteq> NaN \<Longrightarrow> v \<in> set xs \<Longrightarrow> 0 \<le> indexOf xs v"
  by (induction xs) (auto simp: Let_def strictEquals_def)

lemma mset_splice1_indexOf:
  "v \<noteq> NaN \<Longrightarrow> v \<in> set xs \<Longrightarrow> mset (splice1 xs (indexOf xs v)) = mset xs - {#v#}"
proof (induction xs)
  case Nil
  then show ?case by simp
next
  case (Cons x xs)
  show ?case
  proof (cases "strictEquals x v")
    case True
    then have "x = v" by (simp add: strictEquals_def)
    with True show ?thesis by (simp add: splice1_Cons_0)
  next
    case False
    with Cons.prems have in_tl: "v \<in> set xs" and ne: "x \<noteq> v"
      by (auto simp: strictEquals_def)
    have ge: "0 \<le> indexOf xs v" using indexOf_found [OF Cons.prems(1) in_tl] .
    have "splice1 (x # xs) (indexOf (x # xs) v) = x # splice1 xs (indexOf xs v)"
      using False ge by (simp add: Let_def splice1_Cons_Suc)
    then show ?thesis
      using Cons.IH [OF Cons.prems(1) in_tl] ne in_tl by simp
  qed
qed

lemma readProperty_plain:
  "key \<notin> set objectPrototypeNames \<Longrightarrow> readProperty h key = h key"
  by (simp add: readProperty_def split: option.split)

lemma remove_consistent:
  assumes "consistent a" and plain_key: "key \<notin> set objectPrototypeNames"
  shows "consistent (fst (AssociativeArray_remove key a))"
proof (cases "priv_hash a key")
  case None
  then show ?thesis
    using assms by (simp add: AssociativeArray_remove_def readProperty_plain defined_def)
next
  case (Some v)
  let ?h = "priv_hash a" and ?f = "\<lambda>key. the (priv_hash a key)"
  from assms(1) have fin: "finite (dom ?h)" and nan: "NaN \<notin> ran ?h"
    and null: "Null \<notin> ran ?h" and own: "dom ?h \<inter> set objectPrototypeNames = {}"
    and ms: "mset (priv_array a) = image_mset ?f (mset_set (dom ?h))"
    by (simp_all add: consistent_def)
  from Some have key_in: "key \<in> dom ?h" by auto
  from Some nan null have v_ok: "v \<noteq> NaN" "v \<noteq> Null" by (auto simp: ran_def)
  have "v \<in># image_mset ?f (mset_set (dom ?h))"
    using key_in fin Some by force
  with ms have v_in: "v \<in> set (priv_array a)" by (metis set_mset_mset)
  have dom': "dom (?h(key := None)) = dom ?h - {key}" by auto
  have diff: "mset_set (dom ?h - {key}) = mset_set (dom ?h) - {#key#}"
    using fin key_in by (simp add: mset_set_Diff)
  have "image_mset (\<lambda>k. the ((?h(key := None)) k)) (mset_set (dom ?h - {key})) =
      image_mset ?f (mset_set (dom ?h - {key}))"
    using fin by (intro image_mset_cong) auto
  also have "\<dots> = image_mset ?f (mset_set (dom ?h) - {#key#})"
    by (simp only: diff)
  also have "\<dots> = image_mset ?f (mset_set (dom ?h)) - image_mset ?f {#key#}"
    using key_in fin by (simp add: image_mset_Diff)
  also have "\<dots> = mset (priv_array a) - {#v#}"
    using ms Some by simp
  also have "\<dots> = mset (splice1 (priv_array a) (indexOf (priv_array a) v))"
    by (rule mset_splice1_indexOf [OF v_ok(1) v_in, symmetric])
  finally have "mset (splice1 (priv_array a) (indexOf (priv_array a) v)) =
      image_mset (\<lambda>k. the ((?h(key := None)) k)) (mset_set (dom (?h(key := None))))"
    by (simp only: dom')
  moreover have "NaN \<notin> ran (?h(key := None))" "Null \<notin> ran (?h(key := None))"
    using nan null by (auto simp: ran_def split: if_splits)
  moreover have "dom (?h(key := None)) \<inter> set objectPrototypeNames = {}"
    using own by auto
  ultimately show ?thesis
    using Some fin v_ok plain_key
    by (simp add: AssociativeArray_remove_def consistent_def readProperty_plain defined_def
        deleteProperty_def Let_def)
qed

lemma remove_absent:
  "key \<notin> set objectPrototypeNames \<Longrightarrow> Null \<notin> ran (priv_hash a) \<Longrightarrow>
   priv_hash (fst (AssociativeArray_remove key a)) key = None"
  by (cases "priv_hash a key")
    (auto simp add: AssociativeArray_remove_def readProperty_plain defined_def
      deleteProperty_def Let_def ran_def)

lemma add_consistent:
  assumes "consistent a" and "priv_hash a key = None" and "v \<noteq> NaN" and "v \<noteq> Null"
    and "key \<notin> set objectPrototypeNames"
  shows "consistent (a\<lparr>priv_hash := (priv_hash a)(key \<mapsto> v), priv_array := priv_array a @ [v]\<rparr>)"
proof -
  let ?h = "priv_hash a"
  from assms(1) have fin: "finite (dom ?h)" and nan: "NaN \<notin> ran ?h"
    and null: "Null \<notin> ran ?h" and own: "dom ?h \<inter> set objectPrototypeNames = {}"
    and ms: "mset (priv_array a) = image_mset (\<lambda>key. the (?h key)) (mset_set (dom ?h))"
    by (simp_all add: consistent_def)
  from assms(2) have notin: "key \<notin> dom ?h" by auto
  have "image_mset (\<lambda>k. the ((?h(key \<mapsto> v)) k)) (mset_set (dom ?h)) =
      image_mset (\<lambda>k. the (?h k)) (mset_set (dom ?h))"
    using fin notin by (intro image_mset_cong) auto
  then have "mset (priv_array a @ [v]) =
      image_mset (\<lambda>k. the ((?h(key \<mapsto> v)) k)) (mset_set (dom (?h(key \<mapsto> v))))"
    using fin notin ms by simp
  moreover have "NaN \<notin> ran (?h(key \<mapsto> v))" "Null \<notin> ran (?h(key \<mapsto> v))"
    using nan null assms(3,4) by (auto simp: ran_def split: if_splits)
  moreover have "dom (?h(key \<mapsto> v)) \<inter> set objectPrototypeNames = {}"
    using own assms(5) by auto
  ultimately show ?thesis using fin by (simp add: consistent_def)
qed

lemma proto_name: "''__proto__'' \<in> set objectPrototypeNames"
  by (simp add: objectPrototypeNames_def)

lemma set_consistent:
  assumes "consistent a" and "v \<noteq> NaN" and "v \<noteq> Null"
    and "key \<notin> set objectPrototypeNames"
  shows "\<exists>a'. AssociativeArray_set key v a = Some a' \<and> consistent a'"
proof -
  let ?r = "fst (AssociativeArray_remove key a)"
  have c: "consistent ?r" by (rule remove_consistent [OF assms(1,4)])
  from assms(1) have "Null \<notin> ran (priv_hash a)" by (simp add: consistent_def)
  then have absent: "priv_hash ?r key = None" by (rule remove_absent [OF assms(4)])
  have key: "key \<noteq> ''__proto__''" using assms(4) proto_name by auto
  from add_consistent [OF c absent assms(2,3,4)] assms(1) key
  show ?thesis by (simp add: AssociativeArray_set_def writeProperty_def Let_def)
qed

lemma removeAll_consistent: "consistent a \<Longrightarrow> consistent (AssociativeArray_removeAll a)"
  by (cases "priv_array a = []") (simp_all add: AssociativeArray_removeAll_def consistent_def)

lemma new_consistent: "consistent new_AssociativeArray"
  by (simp add: new_AssociativeArray_def consistent_def)

lemma perform_consistent:
  "consistent a \<Longrightarrow> plain x \<Longrightarrow> \<exists>a'. perform a x = Some a' \<and> consistent a'"
  by (cases x) (simp_all add: set_consistent remove_consistent removeAll_consistent)

lemma performFrom_consistent:
  "consistent a \<Longrightarrow> list_all plain ops \<Longrightarrow>
   \<exists>a'. performFrom a ops = Some a' \<and> consistent a'"
proof (induction ops arbitrary: a)
  case Nil
  then show ?case by simp
next
  case (Cons x xs)
  from Cons.prems obtain a' where "perform a x = Some a'" and "consistent a'"
    using perform_consistent [of a x] by auto
  with Cons.IH [of a'] Cons.prems(2) show ?case by simp
qed

lemma performAll_consistent:
  "list_all plain ops \<Longrightarrow> \<exists>a. performAll ops = Some a \<and> consistent a"
  unfolding performAll_def by (rule performFrom_consistent [OF new_consistent])

lemmas aa_eval = performAll_def new_AssociativeArray_def AssociativeArray_set_def
  AssociativeArray_remove_def AssociativeArray_removeAll_def AssociativeArray_get_def
  AssociativeArray_values_def splice1_def strictEquals_def Let_def readProperty_def
  writeProperty_def deleteProperty_def defined_def objectPrototypeNames_def keysSet_def

text \<open>
  C4, as the claim states it, fails. The same value set under two keys is retrievable
  under both, not under exactly one. When a key holding NaN is removed, \<open>indexOf\<close>
  finds no element identical to NaN and \<open>splice\<close>, given \<open>-1\<close>, deletes the last
  element instead: a value still retrievable under its key is then missing from the
  array. A null is not defined, so \<open>remove\<close> leaves it in the array when its key is set
  anew: the array is then longer than there are keys. And a key that names a property of
  \<open>Object.prototype\<close> reads as defined before it is ever set: setting it deletes the
  last element of the array, and on a new collection \<open>get\<close> retrieves under it a value
  that is not in the array.
\<close>

theorem associativeArray_counterexample:
  "map_option AssociativeArray_values
     (performAll [Set ''a'' (Primitive (1::nat)), Set ''b'' (Primitive 1)]) = Some [Primitive 1, Primitive 1] \<and>
   map_option (AssociativeArray_get ''a'')
     (performAll [Set ''a'' (Primitive (1::nat)), Set ''b'' (Primitive 1)]) = Some (Some (Primitive 1)) \<and>
   map_option (AssociativeArray_get ''b'')
     (performAll [Set ''a'' (Primitive (1::nat)), Set ''b'' (Primitive 1)]) = Some (Some (Primitive 1)) \<and>
   map_option AssociativeArray_values
     (performAll [Set ''a'' NaN, Set ''b'' (Primitive (1::nat)), Remove ''a'']) = Some [NaN] \<and>
   map_option (AssociativeArray_get ''b'')
     (performAll [Set ''a'' NaN, Set ''b'' (Primitive (1::nat)), Remove ''a''])
     = Some (Some (Primitive 1)) \<and>
   map_option AssociativeArray_values
     (performAll [Set ''a'' Null, Set ''a'' (Primitive (5::nat))]) = Some [Null, Primitive 5] \<and>
   map_option keysSet
     (performAll [Set ''a'' Null, Set ''a'' (Primitive (5::nat))]) = Some {''a''} \<and>
   map_option AssociativeArray_values
     (performAll [Set ''a'' (Primitive (1::nat)), Set ''constructor'' (Primitive 2)])
     = Some [Primitive 2] \<and>
   map_option (AssociativeArray_get ''a'')
     (performAll [Set ''a'' (Primitive (1::nat)), Set ''constructor'' (Primitive 2)])
     = Some (Some (Primitive 1)) \<and>
   map_option AssociativeArray_values (performAll ([] :: nat operation list)) = Some [] \<and>
   map_option (AssociativeArray_get ''toString'') (performAll ([] :: nat operation list))
     = Some (Some (Inherited ''toString''))"
  by (simp add: aa_eval)

text \<open>
  C4, amended. After every finite sequence of set, remove and removeAll operations on a
  new collection, with keys that are no property names of \<open>Object.prototype\<close> and
  values that are neither undefined nor null nor NaN: the length of the values array is
  the number of keys currently set; every value retrievable under a key that is no
  property name of \<open>Object.prototype\<close> is in the values array; every element of the
  values array is retrievable under at least one such key; and each value occurs in the
  values array as often as there are such keys it is retrievable under.
\<close>

theorem associativeArray_consistency:
  assumes "list_all plain ops"
  shows "\<exists>a. performAll ops = Some a \<and>
    length (AssociativeArray_values a) = card (keysSet a) \<and>
    (\<forall>key v. key \<notin> set objectPrototypeNames \<longrightarrow> AssociativeArray_get key a = Some v \<longrightarrow>
       v \<in> set (AssociativeArray_values a)) \<and>
    (\<forall>v \<in> set (AssociativeArray_values a). keysOf a v \<noteq> {}) \<and>
    (\<forall>v. count_list (AssociativeArray_values a) v = card (keysOf a v))"
proof -
  from performAll_consistent [OF assms] obtain a
    where run: "performAll ops = Some a" and c: "consistent a" by blast
  let ?h = "priv_hash a" and ?f = "\<lambda>key. the (priv_hash a key)"
  from c have fin: "finite (dom ?h)" and own: "dom ?h \<inter> set objectPrototypeNames = {}"
    and ms: "mset (priv_array a) = image_mset ?f (mset_set (dom ?h))"
    by (simp_all add: consistent_def)
  have "length (priv_array a) = size (mset (priv_array a))" by simp
  also have "\<dots> = card (dom ?h)" by (simp only: ms size_image_mset size_mset_set)
  finally have len: "length (AssociativeArray_values a) = card (keysSet a)"
    by (simp add: keysSet_def AssociativeArray_values_def)
  have cnt: "count_list (AssociativeArray_values a) v = card (keysOf a v)" for v
  proof -
    have "keysOf a v = ?f -` {v} \<inter> dom ?h"
      using own
      by (auto simp: keysOf_def AssociativeArray_get_def readProperty_def
          split: option.splits if_splits)
    moreover have "count (mset (priv_array a)) v = card (?f -` {v} \<inter> dom ?h)"
      using fin by (simp only: ms count_image_mset) simp
    ultimately show ?thesis by (simp add: AssociativeArray_values_def count_mset)
  qed
  have fin_keys: "finite (keysOf a v)" for v
    by (rule finite_subset [OF _ fin])
      (auto simp: keysOf_def AssociativeArray_get_def readProperty_plain)
  have some: "keysOf a v \<noteq> {}" if "v \<in> set (AssociativeArray_values a)" for v
  proof -
    from that have "count_list (AssociativeArray_values a) v \<noteq> 0"
      by (simp add: count_list_0_iff)
    then have "card (keysOf a v) \<noteq> 0" by (simp add: cnt)
    then show ?thesis by auto
  qed
  have reach: "v \<in> set (AssociativeArray_values a)"
    if "key \<notin> set objectPrototypeNames" "AssociativeArray_get key a = Some v" for key v
  proof -
    from that have "key \<in> keysOf a v" by (simp add: keysOf_def)
    then have "0 < card (keysOf a v)" using fin_keys [of v] by (auto simp: card_gt_0_iff)
    then have "count_list (AssociativeArray_values a) v \<noteq> 0" by (simp add: cnt)
    then show ?thesis by (simp add: count_list_0_iff)
  qed
  from run len cnt some reach show ?thesis by blast
qed

theorem associativeArray_consistency_witness:
  "list_all plain
       [Set ''a'' (Primitive (1::nat)), Set ''b'' (Primitive 2), Remove ''a'', Set ''c'' (Primitive 2)] \<and>
   (\<exists>a. performAll
       [Set ''a'' (Primitive (1::nat)), Set ''b'' (Primitive 2), Remove ''a'', Set ''c'' (Primitive 2)]
       = Some a \<and>
     AssociativeArray_values a = [Primitive 2, Primitive 2] \<and>
     card (keysSet a) = 2 \<and> card (keysOf a (Primitive 2)) = 2)"
proof -
  let ?ops = "[Set ''a'' (Primitive (1::nat)), Set ''b'' (Primitive 2), Remove ''a'', Set ''c'' (Primitive 2)]"
  have h: "list_all plain ?ops" by (simp add: objectPrototypeNames_def)
  have v: "map_option AssociativeArray_values (performAll ?ops) = Some [Primitive 2, Primitive 2]"
    by (simp add: aa_eval)
  from associativeArray_consistency [OF h] obtain a where a: "performAll ?ops = Some a"
    and "length (AssociativeArray_values a) = card (keysSet a)"
    and "count_list (AssociativeArray_values a) (Primitive 2) = card (keysOf a (Primitive 2))"
    by blast
  with v h show ?thesis by simp
qed

section \<open>Properties of the bounding volumes\<close>

lemma Min_insert_min:
  "finite S \<Longrightarrow> Min (insert (min a b) S) = min a (Min (insert (b::real) S))"
  by (cases "S = {}") (simp_all add: min.assoc)

lemma Max_insert_max:
  "finite S \<Longrightarrow> Max (insert (max a b) S) = max a (Max (insert (b::real) S))"
  by (cases "S = {}") (simp_all add: max.assoc)

lemma Min_insert_insert:
  "finite S \<Longrightarrow> Min (insert b (insert a S)) = min a (Min (insert (b::real) S))"
  by (cases "S = {}") (simp_all add: min.commute min.left_commute)

lemma Max_insert_insert:
  "finite S \<Longrightarrow> Max (insert b (insert a S)) = max a (Max (insert (b::real) S))"
  by (cases "S = {}") (simp_all add: max.commute max.left_commute)

lemma Cartesian3_overwrite:
  "c\<lparr>c3_x := a, c3_y := b, c3_z := d\<rparr> = \<lparr>c3_x = a, c3_y = b, c3_z = d\<rparr>"
  by (cases c) simp

lemma AxisAlignedBoundingBox_overwrite:
  "r\<lparr>minimum := a, maximum := b, center := c\<rparr> = \<lparr>minimum = a, maximum = b, center = c\<rparr>"
  by (cases r) simp

lemma scanPositions_extremes:
  "minimumX (scanPositions ps e) = Min (insert (minimumX e) (c3_x ` set ps)) \<and>
   minimumY (scanPositions ps e) = Min (insert (minimumY e) (c3_y ` set ps)) \<and>
   minimumZ (scanPositions ps e) = Min (insert (minimumZ e) (c3_z ` set ps)) \<and>
   maximumX (scanPositions ps e) = Max (insert (maximumX e) (c3_x ` set ps)) \<and>
   maximumY (scanPositions ps e) = Max (insert (maximumY e) (c3_y ` set ps)) \<and>
   maximumZ (scanPositions ps e) = Max (insert (maximumZ e) (c3_z ` set ps))"
proof (induction ps arbitrary: e)
  case Nil
  then show ?case by simp
next
  case (Cons p ps)
  show ?case
    by (simp add: Cons.IH Min_insert_min Max_insert_max Min_insert_insert Max_insert_insert
        del: Min_insert Max_insert)
qed

lemma fromPoints_nonempty:
  "AxisAlignedBoundingBox_fromPoints (Some (p # ps)) result =
     \<lparr>minimum = \<lparr>c3_x = Min (c3_x ` set (p # ps)), c3_y = Min (c3_y ` set (p # ps)),
                  c3_z = Min (c3_z ` set (p # ps))\<rparr>,
      maximum = \<lparr>c3_x = Max (c3_x ` set (p # ps)), c3_y = Max (c3_y ` set (p # ps)),
                  c3_z = Max (c3_z ` set (p # ps))\<rparr>,
      center = Cartesian3_midpoint
        \<lparr>c3_x = Min (c3_x ` set (p # ps)), c3_y = Min (c3_y ` set (p # ps)),
                  c3_z = Min (c3_z ` set (p # ps))\<rparr>
        \<lparr>c3_x = Max (c3_x ` set (p # ps)), c3_y = Max (c3_y ` set (p # ps)),
                  c3_z = Max (c3_z ` set (p # ps))\<rparr>\<rparr>"
  by (simp add: AxisAlignedBoundingBox_fromPoints_def Let_def scanPositions_extremes
      Cartesian3_overwrite AxisAlignedBoundingBox_overwrite del: Min_insert Max_insert)

text \<open>
  C6. For a list of points that is not empty, the minimum and the maximum of the box
  \<open>fromPoints\<close> returns are the componentwise minimum and maximum of the points, so
  the box encloses every point of the list. For an empty or an undefined list it returns
  the box whose minimum, maximum and centre are the origin.
\<close>

theorem fromPoints_encloses:
  "(positions \<noteq> [] \<longrightarrow>
      minimum (AxisAlignedBoundingBox_fromPoints (Some positions) result) =
        \<lparr>c3_x = Min (c3_x ` set positions), c3_y = Min (c3_y ` set positions),
         c3_z = Min (c3_z ` set positions)\<rparr> \<and>
      maximum (AxisAlignedBoundingBox_fromPoints (Some positions) result) =
        \<lparr>c3_x = Max (c3_x ` set positions), c3_y = Max (c3_y ` set positions),
         c3_z = Max (c3_z ` set positions)\<rparr> \<and>
      (\<forall>p \<in> set positions.
         encloses (AxisAlignedBoundingBox_fromPoints (Some positions) result) p)) \<and>
   AxisAlignedBoundingBox_fromPoints (Some []) result = zeroBox \<and>
   AxisAlignedBoundingBox_fromPoints None result = zeroBox"
proof -
  have empty: "AxisAlignedBoundingBox_fromPoints (Some []) result = zeroBox"
    and undef: "AxisAlignedBoundingBox_fromPoints None result = zeroBox"
    by (simp_all add: AxisAlignedBoundingBox_fromPoints_def zeroBox_def
        AxisAlignedBoundingBox_overwrite)
  have "encloses (AxisAlignedBoundingBox_fromPoints (Some (q # qs)) result) p"
    if "p \<in> set (q # qs)" for p q qs
    using that unfolding fromPoints_nonempty encloses_def
    by (auto simp del: Min_insert Max_insert set_simps intro!: Min_le Max_ge)
  then show ?thesis
    using empty undef by (cases positions) (simp_all add: fromPoints_nonempty del: Min_insert Max_insert set_simps)
qed

theorem fromPoints_encloses_witness:
  "encloses (AxisAlignedBoundingBox_fromPoints
       (Some [\<lparr>c3_x = 2, c3_y = 0, c3_z = 0\<rparr>, \<lparr>c3_x = - 2, c3_y = 0, c3_z = 0\<rparr>]) None)
     \<lparr>c3_x = 2, c3_y = 0, c3_z = 0\<rparr> \<and>
   minimum (AxisAlignedBoundingBox_fromPoints
       (Some [\<lparr>c3_x = 2, c3_y = 0, c3_z = 0\<rparr>, \<lparr>c3_x = - 2, c3_y = 0, c3_z = 0\<rparr>]) None)
     = \<lparr>c3_x = - 2, c3_y = 0, c3_z = 0\<rparr>"
  using fromPoints_encloses
    [of "[\<lparr>c3_x = 2, c3_y = 0, c3_z = 0\<rparr>, \<lparr>c3_x = - 2, c3_y = 0, c3_z = 0\<rparr>]" None]
  by simp

lemma ulpExponent_at:
  assumes "2 ^ n \<le> \<bar>x\<bar>" and "\<bar>x\<bar> < 2 ^ Suc n"
  shows "ulpExponent x = int n - 52"
proof -
  have "(0::real) < 2 ^ n" by simp
  with assms(1) have pos: "0 < \<bar>x\<bar>" by linarith
  have "\<lfloor>log 2 \<bar>x\<bar>\<rfloor> = int n"
  proof (rule floor_unique)
    have "log 2 (2 ^ n) \<le> log 2 \<bar>x\<bar>" using assms(1) pos by (simp del: log_pow_cancel)
    then show "of_int (int n) \<le> log 2 \<bar>x\<bar>" by simp
    have "log 2 \<bar>x\<bar> < log 2 (2 ^ Suc n)"
      using assms(2) pos by (simp del: log_pow_cancel power_Suc)
    moreover have "log 2 ((2::real) ^ Suc n) = real (Suc n)"
      by (rule log_pow_cancel) simp_all
    ultimately show "log 2 \<bar>x\<bar> < of_int (int n) + 1" by simp
  qed
  then show ?thesis by (simp add: ulpExponent_def)
qed

lemma roundToDouble_at:
  assumes "2 ^ n \<le> \<bar>x\<bar>" and "\<bar>x\<bar> < 2 ^ Suc n"
    and "roundHalfEven (x / 2 powi (int n - 52)) = m"
    and "\<bar>of_int m * 2 powi (int n - 52)\<bar> < (2::real) ^ 1024"
  shows "roundToDouble x = Some (of_int m * 2 powi (int n - 52))"
proof -
  have "(0::real) < 2 ^ n" by simp
  with assms(1) have "0 < \<bar>x\<bar>" by linarith
  then have "x \<noteq> 0" by simp
  then show ?thesis
    using assms(3,4) by (simp add: roundToDouble_def ulpExponent_at [OF assms(1,2)] Let_def)
qed

lemma roundToDouble_0: "roundToDouble 0 = Some 0"
  by (simp add: roundToDouble_def)

lemma roundToDouble_1: "roundToDouble (- 1) = Some (- 1)"
  using roundToDouble_at [of 0 "- 1" "- (2 ^ 52)"]
  by (simp add: roundHalfEven_def power_int_minus)

lemma roundToDouble_2: "roundToDouble 2 = Some 2"
  using roundToDouble_at [of 1 2 "2 ^ 52"]
  by (simp add: roundHalfEven_def power_int_minus)

lemma roundToDouble_3: "roundToDouble 3 = Some 3"
  using roundToDouble_at [of 1 3 "3 * 2 ^ 51"]
  by (simp add: roundHalfEven_def power_int_minus)

lemma roundToDouble_5: "roundToDouble (- 5) = Some (- 5)"
  using roundToDouble_at [of 2 "- 5" "- 5 * 2 ^ 50"]
  by (simp add: roundHalfEven_def power_int_minus)

lemma roundToDouble_11: "roundToDouble 11 = Some 11"
  using roundToDouble_at [of 3 11 "11 * 2 ^ 49"]
  by (simp add: roundHalfEven_def power_int_minus)

lemma roundToDouble_2_53: "roundToDouble 9007199254740992 = Some 9007199254740992"
  using roundToDouble_at [of 53 9007199254740992 "2 ^ 52"]
  by (simp add: roundHalfEven_def)

lemma roundToDouble_tie: "roundToDouble 9007199254740993 = Some 9007199254740992"
  using roundToDouble_at [of 53 9007199254740993 "2 ^ 52"]
  by (simp add: roundHalfEven_def)

lemma roundToDouble_below: "roundToDouble 9007199254740991 = Some 9007199254740991"
  using roundToDouble_at [of 52 9007199254740991 9007199254740991]
  by (simp add: roundHalfEven_def)

lemmas rounded = addNumbers_def subtractNumbers_def roundToDouble_0 roundToDouble_1
  roundToDouble_2 roundToDouble_3 roundToDouble_5 roundToDouble_11 roundToDouble_2_53
  roundToDouble_tie roundToDouble_below

text \<open>
  C7, as the claim states it, fails. A rectangle may have a negative width: the union of
  the rectangle at the origin of width -5 with a rectangle further right does not reach
  the corner at \<open>x = -5\<close>. And the width of the union is a rounded difference: for the
  point at \<open>x = -1\<close> and the rectangle from the origin of width 9007199254740992, two
  to the power 53, the difference 9007199254740993 is no double and is rounded to
  9007199254740992, so that the union ends at 9007199254740991, short of the corner at
  9007199254740992.
\<close>

theorem union_corner_outside_counterexample:
  "BoundingRectangle_union degenerateRectangle farRectangle None
     = Some (new_BoundingRectangle 0 0 11 0) \<and>
   corners degenerateRectangle ! 1 = (- 5, 0) \<and>
   \<not> withinExtent (new_BoundingRectangle 0 0 11 0) (corners degenerateRectangle ! 1) \<and>
   0 \<le> br_width pointRectangle \<and> 0 \<le> br_height pointRectangle \<and>
   0 \<le> br_width wideRectangle \<and> 0 \<le> br_height wideRectangle \<and>
   BoundingRectangle_union pointRectangle wideRectangle None
     = Some (new_BoundingRectangle (- 1) 0 9007199254740992 0) \<and>
   addNumbers (- 1) 9007199254740992 = Some 9007199254740991 \<and>
   addNumbers (br_x wideRectangle) (br_width wideRectangle) = Some 9007199254740992 \<and>
   corners wideRectangle ! 1 = (9007199254740992, 0) \<and>
   \<not> withinExtent (new_BoundingRectangle (- 1) 0 9007199254740992 0)
       (corners wideRectangle ! 1)"
  by (simp add: BoundingRectangle_union_def degenerateRectangle_def farRectangle_def
      pointRectangle_def wideRectangle_def new_BoundingRectangle_def corners_def
      withinExtent_def rounded)

text \<open>
  C7, amended. For rectangles \<open>A\<close> and \<open>B\<close> whose widths and heights are not negative,
  and for which the sums and differences that \<open>union\<close> takes are computed without
  rounding, \<open>union(A, B)\<close> is a rectangle, all four corners of \<open>A\<close> and all four
  corners of \<open>B\<close> lie within its extent, and the bounds \<open>x + width\<close> and
  \<open>y + height\<close> of that extent are computed without rounding as well.
\<close>

theorem union_contains_corners:
  assumes "0 \<le> br_width A" and "0 \<le> br_height A"
    and "0 \<le> br_width B" and "0 \<le> br_height B"
    and "unionExact A B"
  shows "\<exists>U. BoundingRectangle_union A B result = Some U \<and>
           list_all (withinExtent U) (corners A @ corners B) \<and>
           addNumbers (br_x U) (br_width U) = Some (br_x U + br_width U) \<and>
           addNumbers (br_y U) (br_height U) = Some (br_y U + br_height U)"
proof -
  let ?r = "case result of None \<Rightarrow> new_BoundingRectangle 0 0 0 0 | Some r \<Rightarrow> r"
  let ?loX = "min (br_x A) (br_x B)" and ?loY = "min (br_y A) (br_y B)"
  let ?hiX = "max (br_x A + br_width A) (br_x B + br_width B)"
  let ?hiY = "max (br_y A + br_height A) (br_y B + br_height B)"
  let ?U = "?r\<lparr>br_x := ?loX, br_y := ?loY, br_width := ?hiX - ?loX, br_height := ?hiY - ?loY\<rparr>"
  from assms(5) have u: "BoundingRectangle_union A B result = Some ?U"
    by (simp add: BoundingRectangle_union_def unionExact_def Let_def)
  have inside: "list_all (withinExtent ?U) (corners A @ corners B)"
    using assms(1-4)
    by (simp add: corners_def withinExtent_def le_max_iff_disj min_le_iff_disj)
  from assms(5) have "roundToDouble ?hiX = Some ?hiX" and "roundToDouble ?hiY = Some ?hiY"
    by (auto simp add: unionExact_def addNumbers_def max_def)
  then have "addNumbers (br_x ?U) (br_width ?U) = Some (br_x ?U + br_width ?U)"
    and "addNumbers (br_y ?U) (br_height ?U) = Some (br_y ?U + br_height ?U)"
    by (simp_all add: addNumbers_def)
  with u inside show ?thesis by blast
qed

theorem union_contains_corners_witness:
  "0 \<le> br_width (new_BoundingRectangle 0 0 2 3) \<and>
   0 \<le> br_height (new_BoundingRectangle 0 0 2 3) \<and>
   0 \<le> br_width farRectangle \<and> 0 \<le> br_height farRectangle \<and>
   unionExact (new_BoundingRectangle 0 0 2 3) farRectangle \<and>
   BoundingRectangle_union (new_BoundingRectangle 0 0 2 3) farRectangle None =
     Some (new_BoundingRectangle 0 0 11 3) \<and>
   list_all (withinExtent (new_BoundingRectangle 0 0 11 3))
     (corners (new_BoundingRectangle 0 0 2 3) @ corners farRectangle)"
proof -
  have h: "0 \<le> br_width (new_BoundingRectangle 0 0 2 3)"
    "0 \<le> br_height (new_BoundingRectangle 0 0 2 3)"
    "0 \<le> br_width farRectangle" "0 \<le> br_height farRectangle"
    by (simp_all add: new_BoundingRectangle_def farRectangle_def)
  have e: "unionExact (new_BoundingRectangle 0 0 2 3) farRectangle"
    by (simp add: unionExact_def new_BoundingRectangle_def farRectangle_def rounded)
  have u: "BoundingRectangle_union (new_BoundingRectangle 0 0 2 3) farRectangle None =
     Some (new_BoundingRectangle 0 0 11 3)"
    by (simp add: BoundingRectangle_union_def new_BoundingRectangle_def farRectangle_def
        rounded)
  from union_contains_corners [OF h e, of None] u h e show ?thesis by simp
qed

section \<open>Properties of packing and of the result parameter\<close>

lemma load_store_same: "load (store array i v) i = Some v"
  by (simp add: load_def store_def nth_append)

lemma load_store_other: "i \<noteq> j \<Longrightarrow> load (store array j v) i = load array i"
  by (auto simp add: load_def store_def nth_append nth_Cons' split: if_splits)

text \<open>
  C8. For a matrix, a bounding rectangle and a distance display condition, for every
  array and every starting index, given or omitted: unpacking at the index from the array
  that \<open>pack\<close> returns gives back the value packed. This holds in particular for an
  array long enough to hold the value at the index; a shorter array grows.
\<close>

theorem pack_unpack_round_trip:
  "Matrix2_unpack (Matrix2_pack m array startingIndex) startingIndex result1 = Some m \<and>
   BoundingRectangle_unpack (BoundingRectangle_pack r array startingIndex) startingIndex result2
     = Some r \<and>
   DistanceDisplayCondition_unpack (DistanceDisplayCondition_pack d array startingIndex)
     startingIndex result3 = Some d"
  by (simp add: Matrix2_unpack_def Matrix2_pack_def BoundingRectangle_unpack_def
      BoundingRectangle_pack_def DistanceDisplayCondition_unpack_def
      DistanceDisplayCondition_pack_def Let_def load_store_same load_store_other)

text \<open>
  C10, as the claim states it, fails for \<open>Matrix2.clone\<close>: cloning the array
  \<open>[1, 2]\<close>, the allocating path passes the undefined elements to the constructor,
  which puts its default 0 in their place, and the in-place path stores them undefined.
\<close>

theorem clone_short_array_counterexample:
  "Matrix2_clone (Some [Some 1, Some 2]) None
     = Some \<lparr>at0 = Some 1, at1 = Some 2, at2 = Some 0, at3 = Some 0\<rparr> \<and>
   Matrix2_clone (Some [Some 1, Some 2]) (Some (asMatrix2Object (new_Matrix2 0 0 0 0)))
     = Some \<lparr>at0 = Some 1, at1 = Some 2, at2 = None, at3 = None\<rparr>"
  by (simp add: Matrix2_clone_def asMatrix2Object_def new_Matrix2_of_def new_Matrix2_def
      load_def)

text \<open>
  C10, amended. \<open>Matrix2.unpack\<close> and \<open>BoundingRectangle.clone\<close> return the same
  value, for every input, whether the result parameter is omitted, and an instance is
  allocated, or an instance is supplied and overwritten. So does \<open>Matrix2.clone\<close> for
  an undefined argument and for every matrix-like argument whose elements 0 to 3 are
  all defined, a matrix among them.
\<close>

theorem optional_result_paths_agree:
  "Matrix2_unpack array startingIndex None = Matrix2_unpack array startingIndex (Some m') \<and>
   BoundingRectangle_clone rectangle None = BoundingRectangle_clone rectangle (Some r') \<and>
   Matrix2_clone None None = Matrix2_clone None (Some object) \<and>
   (fourNumbers matrix \<longrightarrow>
      Matrix2_clone (Some matrix) None = Matrix2_clone (Some matrix) (Some object)) \<and>
   fourNumbers (asMatrix2Like m) \<and>
   Matrix2_clone (Some (asMatrix2Like m)) None = Some (asMatrix2Object m)"
proof -
  have "Matrix2_unpack array startingIndex None = Matrix2_unpack array startingIndex (Some m')"
    by (cases m') (simp add: Matrix2_unpack_def new_Matrix2_def Let_def split: option.split)
  moreover have "BoundingRectangle_clone rectangle None
      = BoundingRectangle_clone rectangle (Some r')"
    by (cases r')
      (simp add: BoundingRectangle_clone_def new_BoundingRectangle_def split: option.split)
  moreover have "Matrix2_clone None None = Matrix2_clone None (Some object)"
    by (simp add: Matrix2_clone_def)
  moreover have "Matrix2_clone (Some matrix) None = Matrix2_clone (Some matrix) (Some object)"
    if "fourNumbers matrix"
    using that
    by (cases object)
      (auto simp add: Matrix2_clone_def fourNumbers_def asMatrix2Object_def
        new_Matrix2_of_def new_Matrix2_def)
  moreover have "fourNumbers (asMatrix2Like m)"
    by (simp add: fourNumbers_def asMatrix2Like_def load_def)
  moreover have "Matrix2_clone (Some (asMatrix2Like m)) None = Some (asMatrix2Object m)"
    by (simp add: Matrix2_clone_def asMatrix2Like_def asMatrix2Object_def new_Matrix2_of_def
        new_Matrix2_def load_def)
  ultimately show ?thesis by blast
qed

theorem optional_result_paths_agree_witness:
  "fourNumbers [Some 1, Some 2, Some 3, Some 4] \<and>
   Matrix2_clone (Some [Some 1, Some 2, Some 3, Some 4]) None
     = Some \<lparr>at0 = Some 1, at1 = Some 2, at2 = Some 3, at3 = Some 4\<rparr> \<and>
   Matrix2_clone (Some [Some 1, Some 2, Some 3, Some 4])
       (Some (asMatrix2Object (new_Matrix2 0 0 0 0)))
     = Some \<lparr>at0 = Some 1, at1 = Some 2, at2 = Some 3, at3 = Some 4\<rparr>"
proof -
  have h: "fourNumbers [Some 1, Some 2, Some 3, Some 4]"
    by (simp add: fourNumbers_def load_def)
  have "Matrix2_clone (Some [Some 1, Some 2, Some 3, Some 4]) None
     = Some \<lparr>at0 = Some 1, at1 = Some 2, at2 = Some 3, at3 = Some 4\<rparr>"
    by (simp add: Matrix2_clone_def asMatrix2Object_def new_Matrix2_of_def new_Matrix2_def
        load_def)
  with h optional_result_paths_agree
    [of _ _ _ _ _ "asMatrix2Object (new_Matrix2 0 0 0 0)" "[Some 1, Some 2, Some 3, Some 4]"]
  show ?thesis by simp
qed

section \<open>Properties of the geodetic conversion\<close>

lemma normalize_on_ellipsoid:
  assumes "onEllipsoid p s"
  shows "\<exists>n. Cartesian3_normalize (Cartesian3_multiplyComponents p s) = Inr n"
proof -
  let ?n = "Cartesian3_multiplyComponents p s"
  have "Cartesian3_magnitude ?n \<noteq> 0"
  proof
    assume "Cartesian3_magnitude ?n = 0"
    then have "c3_x ?n * c3_x ?n + c3_y ?n * c3_y ?n + c3_z ?n * c3_z ?n = 0"
      by (simp add: Cartesian3_magnitude_def)
    then have "c3_x ?n = 0 \<and> c3_y ?n = 0 \<and> c3_z ?n = 0"
      by (simp add: sum_squares_eq_zero_iff add_nonneg_eq_0_iff)
    then have "c3_x p * c3_x s = 0" "c3_y p * c3_y s = 0" "c3_z p * c3_z s = 0"
      by (simp_all add: Cartesian3_multiplyComponents_def)
    then have "c3_x p * (c3_x p * c3_x s) + c3_y p * (c3_y p * c3_y s)
        + c3_z p * (c3_z p * c3_z s) = 0"
      by auto
    with assms show False by (simp add: onEllipsoid_def mult.assoc)
  qed
  then show ?thesis by (simp add: Cartesian3_normalize_def Let_def)
qed

lemma fromCartesian_unfold:
  "Cartographic_fromCartesian scale cartesian ellipsoid result =
     (case scale cartesian (oneOverRadii (effectiveEllipsoid ellipsoid))
             (oneOverRadiiSquared (effectiveEllipsoid ellipsoid))
             (centerToleranceSquared (effectiveEllipsoid ellipsoid)) of
        None \<Rightarrow> Inr None
      | Some p \<Rightarrow>
          (case Cartesian3_normalize (Cartesian3_multiplyComponents p
                  (oneOverRadiiSquared (effectiveEllipsoid ellipsoid))) of
             Inl e \<Rightarrow> Inl e
           | Inr n \<Rightarrow>
               Inr (Some ((case result of None \<Rightarrow> new_Cartographic 0 0 0 | Some r \<Rightarrow> r)
                 \<lparr>longitude := atan2 (c3_y n) (c3_x n), latitude := arcsin (c3_z n),
                  height := CesiumMath_sign
                      (Cartesian3_dot (Cartesian3_subtract cartesian p) cartesian)
                    * Cartesian3_magnitude (Cartesian3_subtract cartesian p)\<rparr>))))"
  by (cases ellipsoid; cases result)
    (simp_all add: Cartographic_fromCartesian_def effectiveEllipsoid_def Let_def
      new_Cartographic_def split: option.split sum.split)

text \<open>
  C5. With the surface projection as the specification describes it (no result within
  the centre tolerance, otherwise a point on the surface of the ellipsoid),
  \<open>fromCartesian\<close> returns undefined exactly when the position is within the centre
  tolerance of the ellipsoid, returns a result for every other position, and never
  throws.
\<close>

theorem fromCartesian_no_result_iff_near_center:
  assumes "\<not> withinCenterTolerance cartesian (oneOverRadii (effectiveEllipsoid ellipsoid))
              (centerToleranceSquared (effectiveEllipsoid ellipsoid)) \<Longrightarrow>
           onEllipsoid
             (closestPoint cartesian (oneOverRadii (effectiveEllipsoid ellipsoid))
                (oneOverRadiiSquared (effectiveEllipsoid ellipsoid)))
             (oneOverRadiiSquared (effectiveEllipsoid ellipsoid))"
  shows "(Cartographic_fromCartesian (scaleToGeodeticSurface closestPoint) cartesian ellipsoid
            result = Inr None
          \<longleftrightarrow> withinCenterTolerance cartesian (oneOverRadii (effectiveEllipsoid ellipsoid))
                (centerToleranceSquared (effectiveEllipsoid ellipsoid))) \<and>
         (\<not> withinCenterTolerance cartesian (oneOverRadii (effectiveEllipsoid ellipsoid))
                (centerToleranceSquared (effectiveEllipsoid ellipsoid)) \<longrightarrow>
            (\<exists>c. Cartographic_fromCartesian (scaleToGeodeticSurface closestPoint) cartesian
                   ellipsoid result = Inr (Some c))) \<and>
         (\<forall>e. Cartographic_fromCartesian (scaleToGeodeticSurface closestPoint) cartesian
                 ellipsoid result \<noteq> Inl e)"
proof (cases "withinCenterTolerance cartesian (oneOverRadii (effectiveEllipsoid ellipsoid))
    (centerToleranceSquared (effectiveEllipsoid ellipsoid))")
  case True
  then show ?thesis by (simp add: fromCartesian_unfold scaleToGeodeticSurface_def)
next
  case False
  from normalize_on_ellipsoid [OF assms [OF False]] obtain n where
    "Cartesian3_normalize (Cartesian3_multiplyComponents
       (closestPoint cartesian (oneOverRadii (effectiveEllipsoid ellipsoid))
          (oneOverRadiiSquared (effectiveEllipsoid ellipsoid)))
       (oneOverRadiiSquared (effectiveEllipsoid ellipsoid))) = Inr n" ..
  with False show ?thesis by (simp add: fromCartesian_unfold scaleToGeodeticSurface_def)
qed

theorem fromCartesian_no_result_iff_near_center_witness:
  "\<not> withinCenterTolerance aboveEquator (oneOverRadii unitSphere)
       (centerToleranceSquared unitSphere) \<and>
   onEllipsoid (radialProjection aboveEquator (oneOverRadii unitSphere)
       (oneOverRadiiSquared unitSphere)) (oneOverRadiiSquared unitSphere) \<and>
   Cartographic_fromCartesian (scaleToGeodeticSurface radialProjection) aboveEquator
       (Some unitSphere) None \<noteq> Inr None \<and>
   Cartographic_fromCartesian (scaleToGeodeticSurface radialProjection) aboveEquator
       (Some unitSphere) None = Inr (Some (new_Cartographic 0 0 1)) \<and>
   Cartographic_fromCartesian (scaleToGeodeticSurface radialProjection) \<lparr>c3_x = 0, c3_y = 0, c3_z = 0\<rparr>
       (Some unitSphere) None = Inr None"
proof -
  have far: "\<not> withinCenterTolerance aboveEquator (oneOverRadii unitSphere)
       (centerToleranceSquared unitSphere)"
    by (simp add: withinCenterTolerance_def aboveEquator_def unitSphere_def EPSILON1_def
        Cartesian3_multiplyComponents_def Cartesian3_dot_def)
  have on: "onEllipsoid (radialProjection aboveEquator (oneOverRadii unitSphere)
       (oneOverRadiiSquared unitSphere)) (oneOverRadiiSquared unitSphere)"
    by (simp add: onEllipsoid_def radialProjection_def aboveEquator_def unitSphere_def
        Cartesian3_magnitude_def)
  have near: "withinCenterTolerance \<lparr>c3_x = 0, c3_y = 0, c3_z = 0\<rparr> (oneOverRadii unitSphere)
       (centerToleranceSquared unitSphere)"
    by (simp add: withinCenterTolerance_def unitSphere_def EPSILON1_def
        Cartesian3_multiplyComponents_def Cartesian3_dot_def)
  have result: "Cartographic_fromCartesian (scaleToGeodeticSurface radialProjection)
      aboveEquator (Some unitSphere) None = Inr (Some (new_Cartographic 0 0 1))"
    by (simp add: Cartographic_fromCartesian_def scaleToGeodeticSurface_def
        withinCenterTolerance_def aboveEquator_def unitSphere_def EPSILON1_def
        Cartesian3_multiplyComponents_def Cartesian3_dot_def radialProjection_def
        Cartesian3_magnitude_def Cartesian3_normalize_def Cartesian3_subtract_def
        CesiumMath_sign_def atan2_def new_Cartographic_def Let_def)
  from far on near result
    fromCartesian_no_result_iff_near_center
      [of aboveEquator "Some unitSphere" radialProjection None]
    fromCartesian_no_result_iff_near_center
      [of "\<lparr>c3_x = 0, c3_y = 0, c3_z = 0\<rparr>" "Some unitSphere" radialProjection None]
  show ?thesis by (simp add: effectiveEllipsoid_def)
qed

end
